theory Spec2Isabelle
  imports Complex_Main
begin

section \<open>Shared data model (app/db/models.py)\<close>

text \<open>
  Python's \<^verbatim>\<open>Decimal\<close> is modelled by the rationals: sums, differences and
  products of the amounts handled here are exact in \<^verbatim>\<open>Decimal\<close>, and a
  quotient is taken at its exact value (Python rounds it to 28 significant digits).
  A \<^verbatim>\<open>datetime\<close> is modelled by its instant in microseconds (an integer),
  all datetimes being taken in one time zone; \<^verbatim>\<open>(a - b).days\<close> is then
  the floor of the difference divided by the microseconds of a day.
\<close>

type_synonym decimal = rat

type_synonym datetime = int

definition timedelta_days :: "datetime \<Rightarrow> datetime \<Rightarrow> int" where
  "timedelta_days a b = (a - b) div 86400000000"

datatype TransactionType = BUY | SELL | DIVIDEND | INTEREST | BONUS | SPLIT | SPIN_OFF

datatype Currency = INR | USD | EUR | GBP

datatype py_error =
    ValueError
  | IndexError
  | AttributeError
  | InvalidOperation
  | DivisionByZero

text \<open>\<^verbatim>\<open>a / b\<close> on two \<^verbatim>\<open>Decimal\<close>s: the default context traps both
  a zero divisor with a non-zero dividend and \<^verbatim>\<open>0 / 0\<close>.\<close>

definition decimal_div :: "decimal \<Rightarrow> decimal \<Rightarrow> py_error + decimal" where
  "decimal_div a b =
     (if b = 0 then (if a = 0 then Inl InvalidOperation else Inl DivisionByZero)
      else Inr (a / b))"

section \<open>Parsed transactions (app/ingestion/base.py)\<close>

record ParsedTransaction =
  pt_transaction_type :: TransactionType
  pt_transaction_date :: datetime
  pt_quantity :: decimal
  pt_price :: decimal
  pt_gross_amount :: decimal
  pt_instrument_name :: string
  pt_symbol :: "string option"
  pt_isin :: "string option"
  pt_amfi_code :: "string option"
  pt_cusip :: "string option"
  pt_brokerage :: decimal
  pt_taxes :: decimal
  pt_other_charges :: decimal
  pt_net_amount :: "decimal option"
  pt_currency :: Currency
  pt_exchange :: "string option"

text \<open>\<^verbatim>\<open>ParsedTransaction.__post_init__\<close>: runs on the freshly constructed
  object and fills in the net amount when the constructor got none.\<close>

definition post_init :: "ParsedTransaction \<Rightarrow> ParsedTransaction" where
  "post_init self =
     (if pt_net_amount self = None then
        (if pt_transaction_type self = BUY then
           self\<lparr>pt_net_amount :=
             Some (pt_gross_amount self + pt_brokerage self + pt_taxes self + pt_other_charges self)\<rparr>
         else
           self\<lparr>pt_net_amount :=
             Some (pt_gross_amount self - pt_brokerage self - pt_taxes self - pt_other_charges self)\<rparr>)
      else self)"

section \<open>Position and tax-lot engine (app/portfolio/positions.py)\<close>

text \<open>The columns of \<^verbatim>\<open>Transaction\<close> and \<^verbatim>\<open>TaxLot\<close> that the engine reads.
  \<^verbatim>\<open>tx_instrument\<close> is the name of the related instrument, when the relationship
  is loaded.\<close>

record Transaction =
  tx_id :: string
  tx_instrument_id :: string
  tx_instrument :: "string option"
  tx_transaction_type :: TransactionType
  tx_transaction_date :: datetime
  tx_quantity :: decimal
  tx_price :: decimal
  tx_gross_amount :: decimal
  tx_net_amount :: decimal
  tx_currency :: Currency

record TaxLot =
  lot_position_id :: string
  lot_transaction_id :: string
  lot_quantity :: decimal
  lot_remaining_quantity :: decimal
  lot_cost_per_share :: decimal
  lot_acquisition_date :: datetime
  lot_is_closed :: bool

datatype TaxLotMethod = FIFO | LIFO | SPEC_ID

record RealizedGain =
  rg_instrument_id :: string
  rg_instrument_name :: string
  rg_sale_date :: datetime
  rg_sale_quantity :: decimal
  rg_sale_price :: decimal
  rg_sale_proceeds :: decimal
  rg_cost_basis :: decimal
  rg_cost_per_share :: decimal
  rg_realized_gain :: decimal
  rg_gain_percentage :: decimal
  rg_is_long_term :: bool
  rg_holding_period_days :: int
  rg_sale_transaction_id :: string
  rg_acquisition_lots :: "(string \<times> decimal \<times> decimal) list"

record TaxLotSnapshot =
  ls_acquisition_date :: datetime
  ls_quantity :: decimal
  ls_remaining_quantity :: decimal
  ls_cost_per_share :: decimal
  ls_total_cost :: decimal
  ls_is_long_term :: bool
  ls_days_held :: int

record PositionSnapshot =
  ps_instrument_id :: string
  ps_instrument_name :: string
  ps_quantity :: decimal
  ps_average_cost :: decimal
  ps_total_cost :: decimal
  ps_current_price :: "decimal option"
  ps_market_value :: "decimal option"
  ps_unrealized_pnl :: "decimal option"
  ps_currency :: Currency
  ps_tax_lots :: "TaxLotSnapshot list"

subsection \<open>TaxLotManager\<close>

text \<open>\<^verbatim>\<open>_process_purchase\<close>: one new open lot, appended.\<close>

definition process_purchase ::
  "Transaction \<Rightarrow> TaxLot list \<Rightarrow> TaxLot list \<times> RealizedGain list" where
  "process_purchase transaction existing_lots =
     (let new_lot = \<lparr>lot_position_id = [],
                       lot_transaction_id = tx_id transaction,
                       lot_quantity = tx_quantity transaction,
                       lot_remaining_quantity = tx_quantity transaction,
                       lot_cost_per_share = tx_price transaction,
                       lot_acquisition_date = tx_transaction_date transaction,
                       lot_is_closed = False\<rparr>
      in (existing_lots @ [new_lot], []))"

text \<open>Python's \<^verbatim>\<open>sorted\<close> is stable, as \<^const>\<open>sort_key\<close> is; with
  \<^verbatim>\<open>reverse=True\<close> it keeps the input order of equal keys as well.\<close>

definition sort_lots :: "TaxLotMethod \<Rightarrow> TaxLot list \<Rightarrow> TaxLot list" where
  "sort_lots lot_method existing_lots =
     (case lot_method of
        FIFO \<Rightarrow> sort_key lot_acquisition_date existing_lots
      | LIFO \<Rightarrow> rev (sort_key lot_acquisition_date (rev existing_lots))
      | SPEC_ID \<Rightarrow> existing_lots)"

text \<open>The state of the loop over the sorted lots in \<^verbatim>\<open>_process_sale\<close>.\<close>

record sale_state =
  remaining_to_sell :: decimal
  updated_lots :: "TaxLot list"
  acquisition_lots :: "(string \<times> decimal \<times> decimal) list"
  total_cost_basis :: decimal

definition sale_step :: "sale_state \<Rightarrow> TaxLot \<Rightarrow> sale_state" where
  "sale_step st lot =
     (if remaining_to_sell st \<le> 0 then
        st\<lparr>updated_lots := updated_lots st @ [lot]\<rparr>
      else if lot_remaining_quantity lot \<le> 0 then
        st\<lparr>updated_lots := updated_lots st @ [lot]\<rparr>
      else
        (let quantity_from_lot = min (remaining_to_sell st) (lot_remaining_quantity lot);
             cost_from_lot = quantity_from_lot * lot_cost_per_share lot;
             lot1 = lot\<lparr>lot_remaining_quantity := lot_remaining_quantity lot - quantity_from_lot\<rparr>;
             lot2 = (if lot_remaining_quantity lot1 \<le> 0
                     then lot1\<lparr>lot_is_closed := True\<rparr> else lot1)
         in \<lparr>remaining_to_sell = remaining_to_sell st - quantity_from_lot,
             updated_lots = updated_lots st @ [lot2],
             acquisition_lots =
               acquisition_lots st @ [(lot_transaction_id lot, quantity_from_lot, cost_from_lot)],
             total_cost_basis = total_cost_basis st + cost_from_lot\<rparr>))"

fun sale_loop :: "sale_state \<Rightarrow> TaxLot list \<Rightarrow> sale_state" where
  "sale_loop st [] = st"
| "sale_loop st (lot # lots) = sale_loop (sale_step st lot) lots"

text \<open>\<^verbatim>\<open>min(existing_lots, key=...)\<close>\<^verbatim>\<open>.acquisition_date\<close>: the least
  acquisition date of a non-empty list.\<close>

fun min_date :: "datetime \<Rightarrow> datetime list \<Rightarrow> datetime" where
  "min_date d [] = d"
| "min_date d (e # es) = min_date (if e < d then e else d) es"

definition process_sale ::
  "TaxLotMethod \<Rightarrow> Transaction \<Rightarrow> TaxLot list \<Rightarrow> py_error + TaxLot list \<times> RealizedGain list" where
  "process_sale lot_method transaction existing_lots =
     (let sale_quantity = tx_quantity transaction;
          sale_price = tx_price transaction;
          sale_date = tx_transaction_date transaction;
          sorted_lots = sort_lots lot_method existing_lots;
          st = sale_loop \<lparr>remaining_to_sell = sale_quantity, updated_lots = [],
                           acquisition_lots = [], total_cost_basis = 0\<rparr> sorted_lots;
          sale_proceeds = sale_quantity * sale_price;
          realized_gain_amount = sale_proceeds - total_cost_basis st;
          gain_percentage = (if total_cost_basis st > 0
                             then realized_gain_amount / total_cost_basis st * 100 else 0);
          first_acquisition_date =
            (case existing_lots of [] \<Rightarrow> sale_date
             | l # ls \<Rightarrow> min_date (lot_acquisition_date l) (map lot_acquisition_date ls));
          holding_days = timedelta_days sale_date first_acquisition_date;
          is_long_term = (holding_days \<ge> 365)
      in case decimal_div (total_cost_basis st) sale_quantity of
           Inl e \<Rightarrow> Inl e
         | Inr cost_per_share \<Rightarrow>
             Inr (updated_lots st,
                  [\<lparr>rg_instrument_id = tx_instrument_id transaction,
                    rg_instrument_name = [],
                    rg_sale_date = sale_date,
                    rg_sale_quantity = sale_quantity,
                    rg_sale_price = sale_price,
                    rg_sale_proceeds = sale_proceeds,
                    rg_cost_basis = total_cost_basis st,
                    rg_cost_per_share = cost_per_share,
                    rg_realized_gain = realized_gain_amount,
                    rg_gain_percentage = gain_percentage,
                    rg_is_long_term = is_long_term,
                    rg_holding_period_days = holding_days,
                    rg_sale_transaction_id = tx_id transaction,
                    rg_acquisition_lots = acquisition_lots st\<rparr>]))"

definition process_transaction ::
  "TaxLotMethod \<Rightarrow> Transaction \<Rightarrow> TaxLot list \<Rightarrow> py_error + TaxLot list \<times> RealizedGain list" where
  "process_transaction lot_method transaction existing_lots =
     (if tx_transaction_type transaction = BUY then
        Inr (process_purchase transaction existing_lots)
      else if tx_transaction_type transaction = SELL then
        process_sale lot_method transaction existing_lots
      else if tx_transaction_type transaction = DIVIDEND then
        Inr (existing_lots, [])
      else Inr (existing_lots, []))"

subsection \<open>PositionCalculator\<close>

text \<open>The state of the loop over the sorted transactions in
  \<^verbatim>\<open>calculate_position\<close>. The calculator owns a \<^verbatim>\<open>TaxLotManager()\<close>,
  whose method is FIFO.\<close>

record position_state =
  total_quantity :: decimal
  total_cost :: decimal
  tax_lots :: "TaxLot list"
  realized_gains :: "RealizedGain list"

text \<open>\<^verbatim>\<open>transaction.net_amount or transaction.gross_amount\<close>: a zero net amount
  is falsy.\<close>

definition net_or_gross :: "Transaction \<Rightarrow> decimal" where
  "net_or_gross t = (if tx_net_amount t \<noteq> 0 then tx_net_amount t else tx_gross_amount t)"

definition position_step :: "position_state \<Rightarrow> Transaction \<Rightarrow> py_error + position_state" where
  "position_step st transaction =
     (if tx_transaction_type transaction = BUY then
        (case process_transaction FIFO transaction (tax_lots st) of
           Inl e \<Rightarrow> Inl e
         | Inr (lots, new_gains) \<Rightarrow>
             Inr \<lparr>total_quantity = total_quantity st + tx_quantity transaction,
                  total_cost = total_cost st + net_or_gross transaction,
                  tax_lots = lots,
                  realized_gains = realized_gains st @ new_gains\<rparr>)
      else if tx_transaction_type transaction = SELL then
        (case process_transaction FIFO transaction (tax_lots st) of
           Inl e \<Rightarrow> Inl e
         | Inr (lots, new_gains) \<Rightarrow>
             Inr \<lparr>total_quantity = total_quantity st - tx_quantity transaction,
                  total_cost = total_cost st,
                  tax_lots = lots,
                  realized_gains = realized_gains st @ new_gains\<rparr>)
      else Inr st)"

fun position_loop :: "position_state \<Rightarrow> Transaction list \<Rightarrow> py_error + position_state" where
  "position_loop st [] = Inr st"
| "position_loop st (t # ts) =
     (case position_step st t of Inl e \<Rightarrow> Inl e | Inr st' \<Rightarrow> position_loop st' ts)"

definition initial_position_state :: position_state where
  "initial_position_state =
     \<lparr>total_quantity = 0, total_cost = 0, tax_lots = [], realized_gains = []\<rparr>"

definition open_lots :: "TaxLot list \<Rightarrow> TaxLot list" where
  "open_lots lots = filter (\<lambda>lot. lot_remaining_quantity lot > 0) lots"

definition remaining_cost_of :: "TaxLot list \<Rightarrow> decimal" where
  "remaining_cost_of lots =
     sum_list (map (\<lambda>lot. lot_remaining_quantity lot * lot_cost_per_share lot) (open_lots lots))"

definition lot_snapshot :: "datetime \<Rightarrow> TaxLot \<Rightarrow> TaxLotSnapshot" where
  "lot_snapshot valuation_date lot =
     (let holding_days = timedelta_days valuation_date (lot_acquisition_date lot)
      in \<lparr>ls_acquisition_date = lot_acquisition_date lot,
          ls_quantity = lot_quantity lot,
          ls_remaining_quantity = lot_remaining_quantity lot,
          ls_cost_per_share = lot_cost_per_share lot,
          ls_total_cost = lot_remaining_quantity lot * lot_cost_per_share lot,
          ls_is_long_term = (holding_days \<ge> 365),
          ls_days_held = holding_days\<rparr>)"

text \<open>\<^verbatim>\<open>calculate_position\<close>. \<^verbatim>\<open>valuation_date\<close> is the date after
  \<^verbatim>\<open>valuation_date or datetime.now()\<close>; a current price of zero is falsy.\<close>

definition calculate_position ::
  "Transaction list \<Rightarrow> decimal option \<Rightarrow> datetime \<Rightarrow> py_error + PositionSnapshot" where
  "calculate_position transactions current_price valuation_date =
     (case sort_key tx_transaction_date transactions of
        [] \<Rightarrow> Inl ValueError
      | first_txn # rest \<Rightarrow>
          (case position_loop initial_position_state (first_txn # rest) of
             Inl e \<Rightarrow> Inl e
           | Inr st \<Rightarrow>
               (let remaining_cost = remaining_cost_of (tax_lots st);
                    average_cost = (if total_quantity st > 0
                                    then remaining_cost / total_quantity st else 0);
                    market_value =
                      (case current_price of None \<Rightarrow> None
                       | Some p \<Rightarrow> if p \<noteq> 0 \<and> total_quantity st > 0
                                  then Some (total_quantity st * p) else None);
                    unrealized_pnl =
                      (case market_value of None \<Rightarrow> None
                       | Some v \<Rightarrow> Some (v - remaining_cost))
                in Inr \<lparr>ps_instrument_id = tx_instrument_id first_txn,
                        ps_instrument_name =
                          (case tx_instrument first_txn of None \<Rightarrow> [] | Some n \<Rightarrow> n),
                        ps_quantity = total_quantity st,
                        ps_average_cost = average_cost,
                        ps_total_cost = remaining_cost,
                        ps_current_price = current_price,
                        ps_market_value = market_value,
                        ps_unrealized_pnl = unrealized_pnl,
                        ps_currency = tx_currency first_txn,
                        ps_tax_lots = map (lot_snapshot valuation_date)
                                          (open_lots (tax_lots st))\<rparr>)))"

section \<open>Returns engine (app/portfolio/returns.py)\<close>

text \<open>
  A Python \<^verbatim>\<open>float\<close> is a finite number, an infinity or a NaN. The rounding of a
  result to the nearest double is idealised as exact, and the two zeros are one; what is
  kept of the format is its range: a result of magnitude \<open>2^1024 - 2^970\<close> or more
  rounds to an infinity, and one of magnitude \<open>2^-1075\<close> or less to zero.
\<close>

datatype py_float = Finite real | PosInf | NegInf | NaN

text \<open>What the float operations of the routine raise. \<^verbatim>\<open>ComplexResult\<close> is no
  exception: it marks the power of a negative base to a fractional exponent, which is a
  complex number in Python, and complex arithmetic is not modelled.\<close>

datatype float_error = OverflowError | ZeroDivisionError | ComplexResult

definition overflow_threshold :: real where
  "overflow_threshold = 2 ^ 1024 - 2 ^ 970"

definition underflow_threshold :: real where
  "underflow_threshold = 1 / 2 ^ 1075"

definition to_float :: "real \<Rightarrow> py_float" where
  "to_float x =
     (if overflow_threshold \<le> x then PosInf
      else if x \<le> - overflow_threshold then NegInf
      else if \<bar>x\<bar> \<le> underflow_threshold then Finite 0
      else Finite x)"

text \<open>\<^verbatim>\<open>float(d)\<close> of a \<^verbatim>\<open>Decimal\<close>.\<close>

definition float_of_decimal :: "decimal \<Rightarrow> py_float" where
  "float_of_decimal d = to_float (of_rat d)"

fun fneg :: "py_float \<Rightarrow> py_float" where
  "fneg (Finite x) = Finite (- x)"
| "fneg PosInf = NegInf"
| "fneg NegInf = PosInf"
| "fneg NaN = NaN"

fun fabs :: "py_float \<Rightarrow> py_float" where
  "fabs (Finite x) = Finite \<bar>x\<bar>"
| "fabs PosInf = PosInf"
| "fabs NegInf = PosInf"
| "fabs NaN = NaN"

fun fadd :: "py_float \<Rightarrow> py_float \<Rightarrow> py_float" where
  "fadd (Finite x) (Finite y) = to_float (x + y)"
| "fadd NaN b = NaN"
| "fadd a NaN = NaN"
| "fadd PosInf NegInf = NaN"
| "fadd NegInf PosInf = NaN"
| "fadd PosInf b = PosInf"
| "fadd NegInf b = NegInf"
| "fadd (Finite x) b = b"

definition fsub :: "py_float \<Rightarrow> py_float \<Rightarrow> py_float" where
  "fsub a b = fadd a (fneg b)"

text \<open>The sign of a float that is not a NaN, and the infinity of a sign.\<close>

fun sign_of :: "py_float \<Rightarrow> real" where
  "sign_of (Finite x) = sgn x"
| "sign_of PosInf = 1"
| "sign_of NegInf = - 1"
| "sign_of NaN = 0"

definition infinity :: "real \<Rightarrow> py_float" where
  "infinity s = (if s = 0 then NaN else if 0 < s then PosInf else NegInf)"

fun fmul :: "py_float \<Rightarrow> py_float \<Rightarrow> py_float" where
  "fmul (Finite x) (Finite y) = to_float (x * y)"
| "fmul NaN b = NaN"
| "fmul a NaN = NaN"
| "fmul a b = infinity (sign_of a * sign_of b)"

text \<open>\<^verbatim>\<open>a / b\<close>: a zero divisor raises, whatever the dividend.\<close>

fun quotient :: "py_float \<Rightarrow> py_float \<Rightarrow> py_float" where
  "quotient (Finite x) (Finite y) = to_float (x / y)"
| "quotient NaN b = NaN"
| "quotient a NaN = NaN"
| "quotient (Finite x) b = Finite 0"
| "quotient a (Finite y) = infinity (sign_of a * sgn y)"
| "quotient a b = NaN"

definition fdiv :: "py_float \<Rightarrow> py_float \<Rightarrow> float_error + py_float" where
  "fdiv a b = (if b = Finite 0 then Inl ZeroDivisionError else Inr (quotient a b))"

text \<open>\<^verbatim>\<open>a < b\<close> and \<^verbatim>\<open>a == b\<close>: false when either side is a NaN.\<close>

fun flt :: "py_float \<Rightarrow> py_float \<Rightarrow> bool" where
  "flt (Finite x) (Finite y) = (x < y)"
| "flt NaN b = False"
| "flt a NaN = False"
| "flt a NegInf = False"
| "flt PosInf b = False"
| "flt a b = True"

definition feq :: "py_float \<Rightarrow> py_float \<Rightarrow> bool" where
  "feq a b = (a \<noteq> NaN \<and> a = b)"

text \<open>\<^verbatim>\<open>base ** w\<close> for a finite exponent (the exponent of the routine is a number of
  years), after \<^verbatim>\<open>float_pow\<close> of CPython: anything to the power 0 is 1; a zero base
  to a negative power raises \<^verbatim>\<open>ZeroDivisionError\<close>; a result out of the range raises
  \<^verbatim>\<open>OverflowError\<close>, and one too small to represent is zero.\<close>

definition is_integer :: "real \<Rightarrow> bool" where
  "is_integer w = (real_of_int \<lfloor>w\<rfloor> = w)"

definition pow_result :: "real \<Rightarrow> float_error + py_float" where
  "pow_result x = (if overflow_threshold \<le> \<bar>x\<bar> then Inl OverflowError else Inr (to_float x))"

definition fpow :: "py_float \<Rightarrow> real \<Rightarrow> float_error + py_float" where
  "fpow base w =
     (if w = 0 then Inr (Finite 1)
      else case base of
        NaN \<Rightarrow> Inr NaN
      | PosInf \<Rightarrow> Inr (if 0 < w then PosInf else Finite 0)
      | NegInf \<Rightarrow> Inr (if w < 0 then Finite 0
                        else if is_integer w \<and> odd \<lfloor>w\<rfloor> then NegInf else PosInf)
      | Finite v \<Rightarrow>
          if v = 0 then (if w < 0 then Inl ZeroDivisionError else Inr (Finite 0))
          else if 0 < v then pow_result (v powr w)
          else if is_integer w
            then pow_result ((if odd \<lfloor>w\<rfloor> then - 1 else 1) * (\<bar>v\<bar> powr w))
          else Inl ComplexResult)"

text \<open>\<^verbatim>\<open>years\<close>: the days from the first date, by 365.25. A number of days is below
  \<open>2^53\<close> in magnitude, so the quotient is a finite float.\<close>

definition years_of :: "datetime list \<Rightarrow> real list" where
  "years_of dates =
     (case dates of
        [] \<Rightarrow> []
      | base_date # _ \<Rightarrow> map (\<lambda>date. real_of_int (timedelta_days date base_date) / 365.25) dates)"

text \<open>The inner loop over \<^verbatim>\<open>zip(amounts, years)\<close>: it carries the rate, which it
  moves off \<^verbatim>\<open>-1.0\<close>, the net present value and its derivative. An exception of a
  power or a division ends it.\<close>

record npv_state =
  ns_rate :: py_float
  ns_npv :: py_float
  ns_dnpv :: py_float

definition npv_step :: "npv_state \<Rightarrow> py_float \<times> real \<Rightarrow> float_error + npv_state" where
  "npv_step st p =
     (case p of (amount, year) \<Rightarrow>
        (let rate = (if feq (ns_rate st) (Finite (- 1)) then Finite (- 0.99999) else ns_rate st)
         in case fpow (fadd (Finite 1) rate) year of
              Inl e \<Rightarrow> Inl e
            | Inr factor \<Rightarrow>
               (case fdiv amount factor of
                  Inl e \<Rightarrow> Inl e
                | Inr discounted_amount \<Rightarrow>
                   (let npv = fadd (ns_npv st) discounted_amount
                    in if year \<noteq> 0
                       then (case fdiv (fmul (Finite year) discounted_amount)
                                       (fadd (Finite 1) rate) of
                               Inl e \<Rightarrow> Inl e
                             | Inr slope \<Rightarrow>
                                 Inr \<lparr>ns_rate = rate, ns_npv = npv,
                                      ns_dnpv = fsub (ns_dnpv st) slope\<rparr>)
                       else Inr \<lparr>ns_rate = rate, ns_npv = npv, ns_dnpv = ns_dnpv st\<rparr>))))"

fun npv_loop :: "npv_state \<Rightarrow> (py_float \<times> real) list \<Rightarrow> float_error + npv_state" where
  "npv_loop st [] = Inr st"
| "npv_loop st (p # ps) =
     (case npv_step st p of
        Inl e \<Rightarrow> Inl e
      | Inr st' \<Rightarrow> npv_loop st' ps)"

definition npv_at :: "py_float list \<Rightarrow> real list \<Rightarrow> py_float \<Rightarrow> float_error + npv_state" where
  "npv_at amounts years rate =
     npv_loop \<lparr>ns_rate = rate, ns_npv = Finite 0, ns_dnpv = Finite 0\<rparr> (zip amounts years)"

definition guess :: py_float where
  "guess = Finite 0.1"

definition tolerance :: py_float where
  "tolerance = Finite (1 / 10 ^ 6)"

definition max_iterations :: nat where
  "max_iterations = 100"

text \<open>One iteration of the outer loop, from the candidate rate it starts with: it returns
  the rate, breaks out of the loop, or goes on with the next candidate.\<close>

datatype iteration = Converged py_float | DerivativeTooSmall | RateOutOfRange | Continue py_float

definition newton_step ::
  "py_float list \<Rightarrow> real list \<Rightarrow> py_float \<Rightarrow> float_error + iteration" where
  "newton_step amounts years rate0 =
     (case npv_at amounts years rate0 of
        Inl e \<Rightarrow> Inl e
      | Inr st \<Rightarrow>
         (let rate = ns_rate st;
              npv = ns_npv st;
              dnpv = ns_dnpv st
          in if flt (fabs npv) tolerance then Inr (Converged rate)
             else if flt (fabs dnpv) (Finite (1 / 10 ^ 10)) then Inr DerivativeTooSmall
             else (case fdiv npv dnpv of
                     Inl e \<Rightarrow> Inl e
                   | Inr change \<Rightarrow>
                      (let rate1 = fsub rate change
                       in if flt rate1 (Finite (- 0.99)) \<or> flt (Finite 10) rate1
                          then Inr RateOutOfRange
                          else Inr (Continue rate1)))))"

text \<open>The outer loop \<^verbatim>\<open>for _ in range(max_iterations)\<close>, by the iterations that
  are left; it counts the iterations it has begun. After the loop the function returns
  \<^verbatim>\<open>None\<close>; an exception leaves the function.\<close>

fun newton_loop ::
  "nat \<Rightarrow> py_float list \<Rightarrow> real list \<Rightarrow> py_float \<Rightarrow> nat
     \<Rightarrow> (float_error + py_float option) \<times> nat" where
  "newton_loop 0 amounts years rate performed = (Inr None, performed)"
| "newton_loop (Suc left) amounts years rate performed =
     (case newton_step amounts years rate of
        Inl e \<Rightarrow> (Inl e, Suc performed)
      | Inr (Converged r) \<Rightarrow> (Inr (Some r), Suc performed)
      | Inr DerivativeTooSmall \<Rightarrow> (Inr None, Suc performed)
      | Inr RateOutOfRange \<Rightarrow> (Inr None, Suc performed)
      | Inr (Continue rate1) \<Rightarrow> newton_loop left amounts years rate1 (Suc performed))"

text \<open>\<^verbatim>\<open>_calculate_xirr_newton_raphson\<close>, called as its one caller does, with the
  default \<^verbatim>\<open>guess\<close> of 0.1: its result or the exception it raises, and the number of
  iterations of the outer loop it began. From this guess the rate is a NaN or within
  \<open>[-0.99, 10]\<close> at every iteration, so the base \<^verbatim>\<open>1 + rate\<close> of the power is a
  NaN or positive, and the power is never complex.\<close>

definition calculate_xirr_newton_raphson ::
  "datetime list \<Rightarrow> py_float list \<Rightarrow> (float_error + py_float option) \<times> nat" where
  "calculate_xirr_newton_raphson dates amounts =
     (if length dates \<noteq> length amounts then (Inr None, 0)
      else if length dates < 2 then (Inr None, 0)
      else newton_loop max_iterations amounts (years_of dates) guess 0)"

text \<open>\<^verbatim>\<open>calculate_xirr\<close>. Its \<^verbatim>\<open>except Exception\<close> turns what the routine raises
  into \<^verbatim>\<open>None\<close>. The result \<^verbatim>\<open>Decimal(str(xirr))\<close> is the decimal numeral that
  Python prints for the float; the model keeps the float.\<close>

record CashFlow =
  cf_date :: datetime
  cf_amount :: decimal
  cf_transaction_type :: TransactionType
  cf_transaction_id :: "string option"

definition calculate_xirr :: "CashFlow list \<Rightarrow> decimal \<Rightarrow> datetime \<Rightarrow> py_float option" where
  "calculate_xirr cash_flows current_value valuation_date =
     (if cash_flows = [] then None
      else (let dates = map cf_date cash_flows @ [valuation_date];
                amounts = map (\<lambda>cf. float_of_decimal (cf_amount cf)) cash_flows
                            @ [float_of_decimal current_value]
            in case fst (calculate_xirr_newton_raphson dates amounts) of
                 Inl e \<Rightarrow> None
               | Inr None \<Rightarrow> None
               | Inr (Some xirr) \<Rightarrow> Some xirr))"

section \<open>Registration (app/api/v1/endpoints/auth.py)\<close>

record User =
  user_id :: string
  user_email :: string
  user_hashed_password :: string
  user_full_name :: string
  user_is_active :: bool
  user_is_verified :: bool
  user_created_at :: datetime

record UserRegister =
  reg_email :: string
  reg_password :: string
  reg_full_name :: string

record UserResponse =
  resp_id :: string
  resp_email :: string
  resp_full_name :: string
  resp_is_active :: bool
  resp_created_at :: datetime

datatype HTTPException = HTTPException nat string

text \<open>What a \<^verbatim>\<open>try\<close> block of an endpoint can raise: an \<^verbatim>\<open>HTTPException\<close>
  of the endpoint's own, or an exception of the persistence layer. Both are instances of
  \<^verbatim>\<open>Exception\<close>.\<close>

datatype raised = RaisedHTTP HTTPException | MultipleResultsFound | Raised py_error

text \<open>\<^verbatim>\<open>result.scalar_one_or_none()\<close> on the rows a query selected.\<close>

definition scalar_one_or_none :: "'a list \<Rightarrow> raised + 'a option" where
  "scalar_one_or_none rows =
     (case rows of [] \<Rightarrow> Inr None | [r] \<Rightarrow> Inr (Some r) | _ \<Rightarrow> Inl MultipleResultsFound)"

text \<open>The body of the \<^verbatim>\<open>try\<close> block of \<^verbatim>\<open>register\<close>, over the rows of the users
  table. The SHA-256 hex digest, the identifier the new row gets and the time of the insert
  are parameters. It returns the response and the table after the commit.\<close>

definition register_try ::
  "(string \<Rightarrow> string) \<Rightarrow> string \<Rightarrow> datetime \<Rightarrow> UserRegister \<Rightarrow> User list
     \<Rightarrow> raised + UserResponse \<times> User list" where
  "register_try sha256_hexdigest new_id now user_data users =
     (case scalar_one_or_none (filter (\<lambda>u. user_email u = reg_email user_data) users) of
        Inl e \<Rightarrow> Inl e
      | Inr (Some existing_user) \<Rightarrow>
          Inl (RaisedHTTP (HTTPException 400 ''Email already registered''))
      | Inr None \<Rightarrow>
          (let hashed_password = sha256_hexdigest (reg_password user_data);
               new_user = \<lparr>user_id = new_id,
                            user_email = reg_email user_data,
                            user_hashed_password = hashed_password,
                            user_full_name = reg_full_name user_data,
                            user_is_active = True,
                            user_is_verified = False,
                            user_created_at = now\<rparr>
           in Inr (\<lparr>resp_id = user_id new_user,
                     resp_email = user_email new_user,
                     resp_full_name = user_full_name new_user,
                     resp_is_active = user_is_active new_user,
                     resp_created_at = user_created_at new_user\<rparr>,
                   users @ [new_user])))"

text \<open>\<^verbatim>\<open>register\<close>: the handler \<^verbatim>\<open>except Exception\<close> catches whatever the block
  raised, rolls back and raises the endpoint's own error.\<close>

definition register ::
  "(string \<Rightarrow> string) \<Rightarrow> string \<Rightarrow> datetime \<Rightarrow> UserRegister \<Rightarrow> User list
     \<Rightarrow> (HTTPException + UserResponse) \<times> User list" where
  "register sha256_hexdigest new_id now user_data users =
     (case register_try sha256_hexdigest new_id now user_data users of
        Inr (response, users') \<Rightarrow> (Inr response, users')
      | Inl e \<Rightarrow> (Inl (HTTPException 500 ''Registration failed''), users))"

section \<open>Canonical identifiers (app/canonicalization/canonicalizer.py)\<close>

datatype IdentifierType = ISIN | AMFI_CODE | CUSIP | SYMBOL | MANUAL

datatype AssetClass = EQUITY | MUTUAL_FUND | BOND | COMMODITY | REAL_ESTATE | CASH | CRYPTOCURRENCY

text \<open>An \<^verbatim>\<open>InstrumentIdentifier\<close> as it is after construction, its value and exchange
  trimmed and in upper case.\<close>

record InstrumentIdentifier =
  identifier_type :: IdentifierType
  id_value :: string
  id_exchange :: "string option"
  id_country :: "string option"

text \<open>\<^verbatim>\<open>asset_class.value\<close>, the string of the enumeration member.\<close>

fun AssetClass_value :: "AssetClass \<Rightarrow> string" where
  "AssetClass_value EQUITY = ''equity''"
| "AssetClass_value MUTUAL_FUND = ''mutual_fund''"
| "AssetClass_value BOND = ''bond''"
| "AssetClass_value COMMODITY = ''commodity''"
| "AssetClass_value REAL_ESTATE = ''real_estate''"
| "AssetClass_value CASH = ''cash''"
| "AssetClass_value CRYPTOCURRENCY = ''cryptocurrency''"

text \<open>\<^verbatim>\<open>str.upper\<close> on ASCII text (hexadecimal digests and the values of
  the asset classes are): the letters a to z move to A to Z.\<close>

definition upper_char :: "char \<Rightarrow> char" where
  "upper_char c =
     (case map_of (zip ''abcdefghijklmnopqrstuvwxyz'' ''ABCDEFGHIJKLMNOPQRSTUVWXYZ'') c of
        Some u \<Rightarrow> u
      | None \<Rightarrow> c)"

definition upper :: "string \<Rightarrow> string" where
  "upper s = map upper_char s"

text \<open>A string is truthy when it is present and not empty.\<close>

definition truthy :: "string option \<Rightarrow> bool" where
  "truthy s = (case s of None \<Rightarrow> False | Some v \<Rightarrow> v \<noteq> [])"

text \<open>\<^verbatim>\<open>CanonicalIdGenerator.generate\<close>. The parameter \<^verbatim>\<open>md5_hexdigest\<close> is
  \<^verbatim>\<open>hashlib.md5(name.encode('utf-8')).hexdigest()\<close> as a function of the name.\<close>

definition generate ::
  "(string \<Rightarrow> string) \<Rightarrow> InstrumentIdentifier \<Rightarrow> AssetClass \<Rightarrow> string \<Rightarrow> string" where
  "generate md5_hexdigest primary_identifier asset_class name =
     (if identifier_type primary_identifier = ISIN then
        ''ISIN:'' @ id_value primary_identifier
      else if identifier_type primary_identifier = AMFI_CODE then
        ''AMFI:'' @ id_value primary_identifier
      else if identifier_type primary_identifier = CUSIP then
        ''CUSIP:'' @ id_value primary_identifier
      else if identifier_type primary_identifier = SYMBOL then
        (let exchange = (if truthy (id_exchange primary_identifier)
                         then the (id_exchange primary_identifier) else ''UNK'')
         in exchange @ '':'' @ id_value primary_identifier)
      else
        (let name_hash = upper (take 8 (md5_hexdigest name))
         in ''MANUAL:'' @ upper (AssetClass_value asset_class) @ '':'' @ name_hash))"

fun priority :: "IdentifierType \<Rightarrow> nat" where
  "priority ISIN = 1"
| "priority AMFI_CODE = 2"
| "priority CUSIP = 3"
| "priority SYMBOL = 4"
| "priority MANUAL = 5"

text \<open>\<^verbatim>\<open>_select_primary_identifier\<close>: the first identifier of the list sorted by
  priority; on an empty list \<^verbatim>\<open>identifiers[0]\<close> raises.\<close>

definition select_primary_identifier ::
  "InstrumentIdentifier list \<Rightarrow> py_error + InstrumentIdentifier" where
  "select_primary_identifier identifiers =
     (case sort_key (\<lambda>x. priority (identifier_type x)) identifiers of
        [] \<Rightarrow> Inl IndexError
      | first # rest \<Rightarrow> Inr first)"

text \<open>The canonical id that \<^verbatim>\<open>_create_new_instrument\<close> gives a new instrument.\<close>

definition new_canonical_id ::
  "(string \<Rightarrow> string) \<Rightarrow> string \<Rightarrow> InstrumentIdentifier list \<Rightarrow> AssetClass
     \<Rightarrow> py_error + string" where
  "new_canonical_id md5_hexdigest name identifiers asset_class =
     (case select_primary_identifier identifiers of
        Inl e \<Rightarrow> Inl e
      | Inr primary_identifier \<Rightarrow> Inr (generate md5_hexdigest primary_identifier asset_class name))"

section \<open>Ingestion service (app/ingestion/service.py)\<close>

text \<open>\<^verbatim>\<open>IngestionService._generate_canonical_id\<close>.\<close>

definition generate_canonical_id :: "(string \<Rightarrow> string) \<Rightarrow> ParsedTransaction \<Rightarrow> string" where
  "generate_canonical_id md5_hexdigest parsed_txn =
     (if truthy (pt_isin parsed_txn) then ''ISIN:'' @ the (pt_isin parsed_txn)
      else if truthy (pt_amfi_code parsed_txn) then ''AMFI:'' @ the (pt_amfi_code parsed_txn)
      else if truthy (pt_cusip parsed_txn) then ''CUSIP:'' @ the (pt_cusip parsed_txn)
      else if truthy (pt_symbol parsed_txn) \<and> truthy (pt_exchange parsed_txn) then
        the (pt_exchange parsed_txn) @ '':'' @ the (pt_symbol parsed_txn)
      else
        (let name_hash = take 8 (md5_hexdigest (pt_instrument_name parsed_txn))
         in ''MANUAL:'' @ name_hash))"

section \<open>Attributes of the mapped classes (app/db/models.py)\<close>

text \<open>The names that the mapped classes declare in models.py, columns and relationships,
  with the three columns of \<^verbatim>\<open>Base\<close>. Python looks an attribute up by its name.\<close>

definition Position_attributes :: "string list" where
  "Position_attributes =
     [''id'', ''created_at'', ''updated_at'', ''portfolio_id'', ''instrument_id'', ''quantity'',
      ''average_cost'', ''total_cost'', ''current_price'', ''market_value'', ''unrealized_pnl'',
      ''currency'', ''last_updated'', ''portfolio'', ''instrument'', ''tax_lots'']"

definition TaxLot_attributes :: "string list" where
  "TaxLot_attributes =
     [''id'', ''created_at'', ''updated_at'', ''position_id'', ''transaction_id'', ''quantity'',
      ''remaining_quantity'', ''cost_per_share'', ''acquisition_date'', ''is_closed'',
      ''position'', ''transaction'']"

definition Transaction_attributes :: "string list" where
  "Transaction_attributes =
     [''id'', ''created_at'', ''updated_at'', ''portfolio_id'', ''instrument_id'',
      ''transaction_type'', ''transaction_date'', ''settlement_date'', ''quantity'', ''price'',
      ''gross_amount'', ''brokerage'', ''taxes'', ''other_charges'', ''net_amount'', ''currency'',
      ''fx_rate'', ''source_file_id'', ''source_reference'', ''notes'', ''extra_data'',
      ''portfolio'', ''instrument'', ''source_file'', ''tax_lots'']"

definition Portfolio_attributes :: "string list" where
  "Portfolio_attributes =
     [''id'', ''created_at'', ''updated_at'', ''user_id'', ''name'', ''description'',
      ''base_currency'', ''is_default'', ''user'', ''positions'', ''transactions'']"

text \<open>\<^verbatim>\<open>Cls.name\<close> on a mapped class, as the construction of a query evaluates it.\<close>

definition class_attribute :: "string list \<Rightarrow> string \<Rightarrow> py_error + unit" where
  "class_attribute declared name = (if name \<in> set declared then Inr () else Inl AttributeError)"

section \<open>Corporate actions (app/portfolio/corporate_actions.py)\<close>

text \<open>The columns of \<^verbatim>\<open>Position\<close> and \<^verbatim>\<open>CorporateAction\<close> in models.py that
  the stock split reads.\<close>

record Position =
  pos_id :: string
  pos_portfolio_id :: string
  pos_instrument_id :: string
  pos_quantity :: decimal
  pos_average_cost :: decimal
  pos_total_cost :: decimal
  pos_currency :: Currency

record CorporateAction =
  ca_id :: string
  ca_instrument_id :: string
  ca_ratio_old :: "decimal option"
  ca_ratio_new :: "decimal option"
  ca_cash_amount :: "decimal option"

text \<open>An object that a query loaded: the row, and the attributes that code has set on the
  object under names the class does not map (none when it is loaded; they are not stored).\<close>

record 'row orm_object =
  row :: 'row
  unmapped :: "(string \<times> decimal) list"

definition loaded :: "'row \<Rightarrow> 'row orm_object" where
  "loaded r = \<lparr>row = r, unmapped = []\<rparr>"

text \<open>Reading and writing the Decimal attributes of a \<^verbatim>\<open>Position\<close> object by name.\<close>

definition Position_get :: "Position orm_object \<Rightarrow> string \<Rightarrow> py_error + decimal" where
  "Position_get position name =
     (if name = ''quantity'' then Inr (pos_quantity (row position))
      else if name = ''average_cost'' then Inr (pos_average_cost (row position))
      else if name = ''total_cost'' then Inr (pos_total_cost (row position))
      else (case map_of (unmapped position) name of
              Some v \<Rightarrow> Inr v
            | None \<Rightarrow> Inl AttributeError))"

definition Position_set :: "Position orm_object \<Rightarrow> string \<Rightarrow> decimal \<Rightarrow> Position orm_object" where
  "Position_set position name v =
     (if name = ''quantity'' then position\<lparr>row := (row position)\<lparr>pos_quantity := v\<rparr>\<rparr>
      else if name = ''average_cost'' then position\<lparr>row := (row position)\<lparr>pos_average_cost := v\<rparr>\<rparr>
      else if name = ''total_cost'' then position\<lparr>row := (row position)\<lparr>pos_total_cost := v\<rparr>\<rparr>
      else position\<lparr>unmapped := (name, v) # unmapped position\<rparr>)"

definition TaxLot_get :: "TaxLot orm_object \<Rightarrow> string \<Rightarrow> py_error + decimal" where
  "TaxLot_get tax_lot name =
     (if name = ''quantity'' then Inr (lot_quantity (row tax_lot))
      else if name = ''remaining_quantity'' then Inr (lot_remaining_quantity (row tax_lot))
      else if name = ''cost_per_share'' then Inr (lot_cost_per_share (row tax_lot))
      else (case map_of (unmapped tax_lot) name of
              Some v \<Rightarrow> Inr v
            | None \<Rightarrow> Inl AttributeError))"

definition TaxLot_set :: "TaxLot orm_object \<Rightarrow> string \<Rightarrow> decimal \<Rightarrow> TaxLot orm_object" where
  "TaxLot_set tax_lot name v =
     (if name = ''quantity'' then tax_lot\<lparr>row := (row tax_lot)\<lparr>lot_quantity := v\<rparr>\<rparr>
      else if name = ''remaining_quantity''
        then tax_lot\<lparr>row := (row tax_lot)\<lparr>lot_remaining_quantity := v\<rparr>\<rparr>
      else if name = ''cost_per_share''
        then tax_lot\<lparr>row := (row tax_lot)\<lparr>lot_cost_per_share := v\<rparr>\<rparr>
      else tax_lot\<lparr>unmapped := (name, v) # unmapped tax_lot\<rparr>)"

text \<open>The tables the processor touches.\<close>

record database =
  db_positions :: "Position list"
  db_tax_lots :: "TaxLot list"
  db_transactions :: "Transaction list"

text \<open>The body of the loop over the positions in \<^verbatim>\<open>_process_stock_split\<close>.\<close>

definition split_position :: "decimal \<Rightarrow> Position orm_object \<Rightarrow> py_error + Position orm_object" where
  "split_position split_ratio position =
     (case Position_get position ''quantity'' of
        Inl e \<Rightarrow> Inl e
      | Inr quantity \<Rightarrow>
          (let new_quantity = quantity * split_ratio
           in case Position_get position ''average_price'' of
                Inl e \<Rightarrow> Inl e
              | Inr average_price \<Rightarrow>
                  (case decimal_div average_price split_ratio of
                     Inl e \<Rightarrow> Inl e
                   | Inr new_avg_price \<Rightarrow>
                       Inr (Position_set (Position_set position ''quantity'' new_quantity)
                              ''average_price'' new_avg_price))))"

text \<open>A loop over loaded objects: it stops at the first exception, which leaves the objects
  before it changed in the session and the others as they were.\<close>

fun for_each :: "('a \<Rightarrow> py_error + 'a) \<Rightarrow> 'a list \<Rightarrow> (py_error + unit) \<times> 'a list" where
  "for_each body [] = (Inr (), [])"
| "for_each body (x # xs) =
     (case body x of
        Inl e \<Rightarrow> (Inl e, x # xs)
      | Inr x' \<Rightarrow> (case for_each body xs of (outcome, xs') \<Rightarrow> (outcome, x' # xs')))"

text \<open>The body of the loop over the tax lots.\<close>

definition split_tax_lot :: "decimal \<Rightarrow> TaxLot orm_object \<Rightarrow> py_error + TaxLot orm_object" where
  "split_tax_lot split_ratio tax_lot =
     (case TaxLot_get tax_lot ''quantity'' of
        Inl e \<Rightarrow> Inl e
      | Inr quantity \<Rightarrow>
          (let tax_lot1 = TaxLot_set tax_lot ''quantity'' (quantity * split_ratio)
           in case TaxLot_get tax_lot1 ''buy_price'' of
                Inl e \<Rightarrow> Inl e
              | Inr buy_price \<Rightarrow>
                  (case decimal_div buy_price split_ratio of
                     Inl e \<Rightarrow> Inl e
                   | Inr v \<Rightarrow> Inr (TaxLot_set tax_lot1 ''buy_price'' v))))"

text \<open>Writing the rows of changed objects back, each over the row it was loaded from
  (\<^verbatim>\<open>old\<close> and \<^verbatim>\<open>new\<close> list the same objects, before and after).\<close>

fun write_back :: "'r list \<Rightarrow> 'r list \<Rightarrow> 'r list \<Rightarrow> 'r list" where
  "write_back (old # olds) (new # news) table =
     write_back olds news (map (\<lambda>r. if r = old then new else r) table)"
| "write_back olds news table = table"

text \<open>\<^verbatim>\<open>_process_stock_split\<close>. The result is the outcome and the tables as the session
  holds them at the end: committed on success, pending when an exception left the
  function. A ratio that is absent or zero is falsy.\<close>

definition process_stock_split ::
  "CorporateAction \<Rightarrow> database \<Rightarrow> (py_error + unit) \<times> database" where
  "process_stock_split action db =
     (case (ca_ratio_old action, ca_ratio_new action) of
        (Some ratio_old, Some ratio_new) \<Rightarrow>
          (if ratio_old = 0 \<or> ratio_new = 0 then (Inl ValueError, db)
           else
             (let split_ratio = ratio_new / ratio_old;
                  position_rows = filter (\<lambda>p. pos_instrument_id p = ca_instrument_id action
                                               \<and> pos_quantity p > 0) (db_positions db);
                  (outcome, positions) = for_each (split_position split_ratio)
                                                  (map loaded position_rows);
                  db1 = db\<lparr>db_positions :=
                             write_back position_rows (map row positions) (db_positions db)\<rparr>
              in case outcome of
                   Inl e \<Rightarrow> (Inl e, db1)
                 | Inr _ \<Rightarrow>
                     (case class_attribute TaxLot_attributes ''status'' of
                        Inl e \<Rightarrow> (Inl e, db1)
                      | Inr _ \<Rightarrow>
                          (let lot_rows = filter
                                 (\<lambda>l. list_ex (\<lambda>t. tx_id t = lot_transaction_id l
                                         \<and> tx_instrument_id t = ca_instrument_id action)
                                       (db_transactions db))
                                 (db_tax_lots db);
                               (outcome2, tax_lots) = for_each (split_tax_lot split_ratio)
                                                               (map loaded lot_rows);
                               db2 = db1\<lparr>db_tax_lots :=
                                          write_back lot_rows (map row tax_lots) (db_tax_lots db)\<rparr>
                           in (outcome2, db2)))))
      | _ \<Rightarrow> (Inl ValueError, db))"

section \<open>Capital-gains report (app/api/v1/endpoints/reports.py)\<close>

text \<open>\<^verbatim>\<open>financial_year.replace("FY", "")\<close> and \<^verbatim>\<open>.split("-")\<close>.\<close>

fun remove_FY :: "string \<Rightarrow> string" where
  "remove_FY (a # b # s) =
     (if a = CHR ''F'' \<and> b = CHR ''Y'' then remove_FY s else a # remove_FY (b # s))"
| "remove_FY s = s"

fun split_dash :: "string \<Rightarrow> string list" where
  "split_dash [] = [[]]"
| "split_dash (c # s) =
     (if c = CHR ''-'' then [] # split_dash s
      else (case split_dash s of part # parts \<Rightarrow> (c # part) # parts | [] \<Rightarrow> [[c]]))"

text \<open>\<^verbatim>\<open>xs[i]\<close> for a non-negative index.\<close>

definition item :: "'a list \<Rightarrow> nat \<Rightarrow> py_error + 'a" where
  "item xs i = (if i < length xs then Inr (xs ! i) else Inl IndexError)"

text \<open>The day number of a date of the proleptic Gregorian calendar, counted from
  1970-01-01, and \<^verbatim>\<open>date(year, month, day)\<close> for a month and day that exist: the
  instant of its midnight, which is what a comparison with a timestamp column takes it for.
  The year must lie between 1 and 9999.\<close>

definition days_from_civil :: "int \<Rightarrow> int \<Rightarrow> int \<Rightarrow> int" where
  "days_from_civil y m d =
     (let y1 = (if m \<le> 2 then y - 1 else y);
          era = y1 div 400;
          yoe = y1 - era * 400;
          doy = (153 * (if m > 2 then m - 3 else m + 9) + 2) div 5 + d - 1;
          doe = yoe * 365 + yoe div 4 - yoe div 100 + doy
      in era * 146097 + doe - 719468)"

definition py_date :: "int \<Rightarrow> int \<Rightarrow> int \<Rightarrow> py_error + datetime" where
  "py_date year month d =
     (if 1 \<le> year \<and> year \<le> 9999 then Inr (days_from_civil year month d * 86400000000)
      else Inl ValueError)"

text \<open>The financial year's window. \<^verbatim>\<open>py_int\<close> is Python's \<^verbatim>\<open>int\<close> on a string.\<close>

definition financial_year_window ::
  "(string \<Rightarrow> py_error + int) \<Rightarrow> string \<Rightarrow> py_error + datetime \<times> datetime" where
  "financial_year_window py_int financial_year =
     (let fy_parts = split_dash (remove_FY financial_year)
      in case item fy_parts 0 of Inl e \<Rightarrow> Inl e | Inr part0 \<Rightarrow>
         (case py_int part0 of Inl e \<Rightarrow> Inl e | Inr start_year \<Rightarrow>
         (case item fy_parts 1 of Inl e \<Rightarrow> Inl e | Inr part1 \<Rightarrow>
         (case py_int part1 of Inl e \<Rightarrow> Inl e | Inr n \<Rightarrow>
         (let end_year = (if n < 100 then n + 2000 else n)
          in case py_date start_year 4 1 of Inl e \<Rightarrow> Inl e | Inr fy_start \<Rightarrow>
             (case py_date end_year 3 31 of Inl e \<Rightarrow> Inl e | Inr fy_end \<Rightarrow>
                Inr (fy_start, fy_end)))))))"

text \<open>The attributes of the mapped classes that building the query evaluates, in the
  order Python evaluates them; the first one that its class does not declare raises.\<close>

definition capital_gains_query_attributes :: "(string list \<times> string) list" where
  "capital_gains_query_attributes =
     [(TaxLot_attributes, ''transaction''), (Transaction_attributes, ''instrument''),
      (TaxLot_attributes, ''buy_transaction''), (Transaction_attributes, ''instrument''),
      (TaxLot_attributes, ''transaction_id''), (Transaction_attributes, ''id''),
      (Transaction_attributes, ''portfolio_id''), (Portfolio_attributes, ''id''),
      (Portfolio_attributes, ''user_id''), (TaxLot_attributes, ''status''),
      (Transaction_attributes, ''transaction_date''),
      (Transaction_attributes, ''transaction_date''),
      (Transaction_attributes, ''transaction_type'')]"

fun evaluate_attributes :: "(string list \<times> string) list \<Rightarrow> py_error + unit" where
  "evaluate_attributes [] = Inr ()"
| "evaluate_attributes ((declared, name) # rest) =
     (case class_attribute declared name of
        Inl e \<Rightarrow> Inl e
      | Inr _ \<Rightarrow> evaluate_attributes rest)"

text \<open>The rows as the rest of the endpoint reads them: a tax lot with a status, a buy and
  a sell price, its sell transaction and its buy transaction, each transaction with its
  portfolio's owner and its instrument. This part runs only when the query was built.\<close>

record report_transaction =
  rt_id :: string
  rt_portfolio_id :: string
  rt_user_id :: string
  rt_transaction_type :: TransactionType
  rt_transaction_date :: datetime
  rt_instrument_name :: string
  rt_instrument_isin :: "string option"

record report_tax_lot =
  rl_id :: string
  rl_status :: string
  rl_quantity :: decimal
  rl_buy_price :: decimal
  rl_sell_price :: decimal
  rl_transaction :: report_transaction
  rl_buy_transaction :: report_transaction

record CapitalGainsReportItem =
  gi_instrument_name :: string
  gi_isin :: "string option"
  gi_quantity :: decimal
  gi_buy_date :: datetime
  gi_sell_date :: datetime
  gi_buy_price :: decimal
  gi_sell_price :: decimal
  gi_buy_value :: decimal
  gi_sell_value :: decimal
  gi_capital_gain :: decimal
  gi_holding_period_days :: int
  gi_is_long_term :: bool
  gi_tax_lot_id :: string
  gi_buy_transaction_id :: string
  gi_sell_transaction_id :: string

record CapitalGainsResponse =
  cg_financial_year :: string
  cg_report_date :: datetime
  cg_total_transactions :: nat
  cg_total_short_term_gains :: decimal
  cg_total_long_term_gains :: decimal
  cg_net_capital_gains :: decimal
  cg_gains_items :: "CapitalGainsReportItem list"

definition selected_tax_lots ::
  "string \<Rightarrow> string option \<Rightarrow> datetime \<Rightarrow> datetime \<Rightarrow> report_tax_lot list
     \<Rightarrow> report_tax_lot list" where
  "selected_tax_lots user portfolio_id fy_start fy_end rows =
     filter (\<lambda>l. rt_user_id (rl_transaction l) = user
                \<and> rl_status l = ''realized''
                \<and> rt_transaction_date (rl_transaction l) \<ge> fy_start
                \<and> rt_transaction_date (rl_transaction l) \<le> fy_end
                \<and> rt_transaction_type (rl_transaction l) = SELL
                \<and> (if truthy portfolio_id
                    then rt_portfolio_id (rl_transaction l) = the portfolio_id else True))
       rows"

definition gains_item :: "report_tax_lot \<Rightarrow> CapitalGainsReportItem" where
  "gains_item tax_lot =
     (let sell_txn = rl_transaction tax_lot;
          buy_txn = rl_buy_transaction tax_lot;
          holding_days = timedelta_days (rt_transaction_date sell_txn)
                                        (rt_transaction_date buy_txn);
          is_long_term = (holding_days > 365);
          buy_value = rl_quantity tax_lot * rl_buy_price tax_lot;
          sell_value = rl_quantity tax_lot * rl_sell_price tax_lot;
          capital_gain = sell_value - buy_value
      in \<lparr>gi_instrument_name = rt_instrument_name sell_txn,
          gi_isin = rt_instrument_isin sell_txn,
          gi_quantity = rl_quantity tax_lot,
          gi_buy_date = rt_transaction_date buy_txn,
          gi_sell_date = rt_transaction_date sell_txn,
          gi_buy_price = rl_buy_price tax_lot,
          gi_sell_price = rl_sell_price tax_lot,
          gi_buy_value = buy_value,
          gi_sell_value = sell_value,
          gi_capital_gain = capital_gain,
          gi_holding_period_days = holding_days,
          gi_is_long_term = is_long_term,
          gi_tax_lot_id = rl_id tax_lot,
          gi_buy_transaction_id = rt_id buy_txn,
          gi_sell_transaction_id = rt_id sell_txn\<rparr>)"

definition capital_gains_response ::
  "string \<Rightarrow> datetime \<Rightarrow> report_tax_lot list \<Rightarrow> CapitalGainsResponse" where
  "capital_gains_response financial_year today selected =
     (let gains_items = map gains_item selected;
          total_short_term_gains =
            sum_list (map gi_capital_gain (filter (\<lambda>i. \<not> gi_is_long_term i) gains_items));
          total_long_term_gains =
            sum_list (map gi_capital_gain (filter gi_is_long_term gains_items))
      in \<lparr>cg_financial_year = financial_year,
          cg_report_date = today,
          cg_total_transactions = length gains_items,
          cg_total_short_term_gains = total_short_term_gains,
          cg_total_long_term_gains = total_long_term_gains,
          cg_net_capital_gains = total_short_term_gains + total_long_term_gains,
          cg_gains_items = gains_items\<rparr>)"

text \<open>The \<^verbatim>\<open>try\<close> block of \<^verbatim>\<open>get_capital_gains_report\<close>, and the endpoint with its
  handler, which turns every exception of the block into the status 500.\<close>

definition capital_gains_try ::
  "(string \<Rightarrow> py_error + int) \<Rightarrow> datetime \<Rightarrow> string \<Rightarrow> string option \<Rightarrow> string
     \<Rightarrow> report_tax_lot list \<Rightarrow> py_error + CapitalGainsResponse" where
  "capital_gains_try py_int today financial_year portfolio_id current_user rows =
     (case financial_year_window py_int financial_year of
        Inl e \<Rightarrow> Inl e
      | Inr (fy_start, fy_end) \<Rightarrow>
          (case evaluate_attributes capital_gains_query_attributes of
             Inl e \<Rightarrow> Inl e
           | Inr _ \<Rightarrow>
               Inr (capital_gains_response financial_year today
                      (selected_tax_lots current_user portfolio_id fy_start fy_end rows))))"

definition get_capital_gains_report ::
  "(string \<Rightarrow> py_error + int) \<Rightarrow> datetime \<Rightarrow> string \<Rightarrow> string option \<Rightarrow> string
     \<Rightarrow> report_tax_lot list \<Rightarrow> HTTPException + CapitalGainsResponse" where
  "get_capital_gains_report py_int today financial_year portfolio_id current_user rows =
     (case capital_gains_try py_int today financial_year portfolio_id current_user rows of
        Inl e \<Rightarrow> Inl (HTTPException 500 ''Error generating capital gains report'')
      | Inr response \<Rightarrow> Inr response)"

section \<open>Notions used to state the properties\<close>

text \<open>The tax-lot manager applied to a sequence of transactions, each one to the lots the
  previous one returned; an exception ends the run.\<close>

fun process_transactions ::
  "TaxLotMethod \<Rightarrow> TaxLot list \<Rightarrow> Transaction list \<Rightarrow> py_error + TaxLot list" where
  "process_transactions lot_method lots [] = Inr lots"
| "process_transactions lot_method lots (t # ts) =
     (case process_transaction lot_method t lots of
        Inl e \<Rightarrow> Inl e
      | Inr (lots', gains) \<Rightarrow> process_transactions lot_method lots' ts)"

text \<open>A lot keeps between nothing and its quantity, and is closed exactly when it keeps
  nothing.\<close>

definition lot_inv :: "TaxLot \<Rightarrow> bool" where
  "lot_inv lot \<longleftrightarrow> 0 \<le> lot_remaining_quantity lot
     \<and> lot_remaining_quantity lot \<le> lot_quantity lot
     \<and> (lot_is_closed lot \<longleftrightarrow> lot_remaining_quantity lot = 0)"

text \<open>The quantity still held in the open lots.\<close>

definition open_quantity :: "TaxLot list \<Rightarrow> decimal" where
  "open_quantity lots = sum_list (map lot_remaining_quantity (open_lots lots))"

text \<open>What an oversell leaves of a lot: nothing, closed.\<close>

definition sold_out :: "TaxLot \<Rightarrow> TaxLot" where
  "sold_out lot = (if lot_remaining_quantity lot > 0
     then lot\<lparr>lot_remaining_quantity := 0, lot_is_closed := True\<rparr> else lot)"

text \<open>The entry of the realized gain's acquisition lots for a lot sold out whole.\<close>

definition consumed_entry :: "TaxLot \<Rightarrow> string \<times> decimal \<times> decimal" where
  "consumed_entry lot = (lot_transaction_id lot, lot_remaining_quantity lot,
     lot_remaining_quantity lot * lot_cost_per_share lot)"

text \<open>The calculator's running quantity is at most what the open lots hold.\<close>

definition position_inv :: "position_state \<Rightarrow> bool" where
  "position_inv st \<longleftrightarrow> total_quantity st \<le> open_quantity (tax_lots st)"

text \<open>The values that the engine receives are column values: a quantity, a price and a
  cost per share are \<^verbatim>\<open>Numeric(15, 4)\<close>, and the ingestion layer lets no negative
  quantity or price through. Such a value is a multiple of \<open>1/10^4\<close> from 0 up to, and not
  including, \<open>10^11\<close>.\<close>

definition numeric_15_4 :: "decimal \<Rightarrow> bool" where
  "numeric_15_4 q \<longleftrightarrow> 0 \<le> q \<and> q < 10 ^ 11 \<and> of_int \<lfloor>q * 10 ^ 4\<rfloor> = q * 10 ^ 4"

definition stored_transaction :: "Transaction \<Rightarrow> bool" where
  "stored_transaction t \<longleftrightarrow> numeric_15_4 (tx_quantity t) \<and> numeric_15_4 (tx_price t)"

definition stored_lot :: "TaxLot \<Rightarrow> bool" where
  "stored_lot lot \<longleftrightarrow> numeric_15_4 (lot_remaining_quantity lot)
     \<and> numeric_15_4 (lot_cost_per_share lot)"

section \<open>Example data\<close>

definition day :: "int \<Rightarrow> datetime" where
  "day n = n * 86400000000"

definition example_tx ::
  "string \<Rightarrow> TransactionType \<Rightarrow> datetime \<Rightarrow> decimal \<Rightarrow> decimal \<Rightarrow> Transaction" where
  "example_tx i ty d q p =
     \<lparr>tx_id = i, tx_instrument_id = ''instrument-1'', tx_instrument = Some ''FIFO Test Stock'',
      tx_transaction_type = ty, tx_transaction_date = d, tx_quantity = q, tx_price = p,
      tx_gross_amount = q * p, tx_net_amount = q * p, tx_currency = INR\<rparr>"

definition fifo_example :: "Transaction list" where
  "fifo_example =
     [example_tx ''t1'' BUY (day 10) 100 30, example_tx ''t2'' BUY (day 15) 100 40,
      example_tx ''t3'' BUY (day 20) 100 50, example_tx ''t4'' SELL (day 25) 150 45]"

definition zero_quantity_buy :: Transaction where
  "zero_quantity_buy = example_tx ''t0'' BUY (day 1) 0 30"

definition zero_quantity_lot :: TaxLot where
  "zero_quantity_lot =
     \<lparr>lot_position_id = [], lot_transaction_id = ''t0'', lot_quantity = 0,
      lot_remaining_quantity = 0, lot_cost_per_share = 30, lot_acquisition_date = day 1,
      lot_is_closed = False\<rparr>"

definition buy_then_sell :: "Transaction list" where
  "buy_then_sell = [example_tx ''t1'' BUY (day 10) 100 30, example_tx ''t2'' SELL (day 15) 40 45]"

definition partly_sold_lot :: TaxLot where
  "partly_sold_lot =
     \<lparr>lot_position_id = [], lot_transaction_id = ''t1'', lot_quantity = 100,
      lot_remaining_quantity = 60, lot_cost_per_share = 30, lot_acquisition_date = day 10,
      lot_is_closed = False\<rparr>"

text \<open>A buy of 100, a dividend row, which has no quantity, and a sell of 150.\<close>

definition oversell_example :: "Transaction list" where
  "oversell_example =
     [example_tx ''t1'' BUY (day 10) 100 30, example_tx ''d1'' DIVIDEND (day 12) 0 0,
      example_tx ''t2'' SELL (day 15) 150 45]"

definition bought_lot :: TaxLot where
  "bought_lot =
     \<lparr>lot_position_id = [], lot_transaction_id = ''t1'', lot_quantity = 100,
      lot_remaining_quantity = 100, lot_cost_per_share = 30, lot_acquisition_date = day 10,
      lot_is_closed = False\<rparr>"

definition example_parsed :: "TransactionType \<Rightarrow> decimal option \<Rightarrow> ParsedTransaction" where
  "example_parsed ty net =
     \<lparr>pt_transaction_type = ty, pt_transaction_date = 0, pt_quantity = 10, pt_price = 100,
      pt_gross_amount = 1000, pt_instrument_name = ''ACME'', pt_symbol = None, pt_isin = None,
      pt_amfi_code = None, pt_cusip = None, pt_brokerage = 10, pt_taxes = 5,
      pt_other_charges = 2, pt_net_amount = net, pt_currency = INR, pt_exchange = None\<rparr>"

definition alice :: User where
  "alice = \<lparr>user_id = ''u1'', user_email = ''alice@example.com'',
     user_hashed_password = ''5e884898'', user_full_name = ''Alice'', user_is_active = True,
     user_is_verified = False, user_created_at = 0\<rparr>"

definition alice_again :: UserRegister where
  "alice_again = \<lparr>reg_email = ''alice@example.com'', reg_password = ''differentpassword'',
     reg_full_name = ''Different Name''\<rparr>"

text \<open>The MD5 hex digest, given on the one name the examples hash, \<^verbatim>\<open>Family Gold\<close>.\<close>

definition md5_family_gold :: "string \<Rightarrow> string" where
  "md5_family_gold name = ''a34eaac5ef3882c06871528bcc3b4d50''"

definition family_gold :: ParsedTransaction where
  "family_gold =
     \<lparr>pt_transaction_type = BUY, pt_transaction_date = 0, pt_quantity = 10, pt_price = 100,
      pt_gross_amount = 1000, pt_instrument_name = ''Family Gold'', pt_symbol = None,
      pt_isin = None, pt_amfi_code = None, pt_cusip = None, pt_brokerage = 0, pt_taxes = 0,
      pt_other_charges = 0, pt_net_amount = Some 1000, pt_currency = INR,
      pt_exchange = Some ''MANUAL''\<rparr>"

text \<open>An identifier of the manual type, for the last branch of the generator; nothing in
  the canonicalization service builds one.\<close>

definition manual_identifier :: InstrumentIdentifier where
  "manual_identifier =
     \<lparr>identifier_type = MANUAL, id_value = ''FAMILY GOLD'', id_exchange = None,
      id_country = None\<rparr>"

definition split_1_for_2 :: CorporateAction where
  "split_1_for_2 =
     \<lparr>ca_id = ''a1'', ca_instrument_id = ''instrument-1'', ca_ratio_old = Some 1,
      ca_ratio_new = Some 2, ca_cash_amount = None\<rparr>"

definition position_100_at_50 :: Position where
  "position_100_at_50 =
     \<lparr>pos_id = ''p1'', pos_portfolio_id = ''pf1'', pos_instrument_id = ''instrument-1'',
      pos_quantity = 100, pos_average_cost = 50, pos_total_cost = 5000, pos_currency = INR\<rparr>"

definition split_database :: database where
  "split_database =
     \<lparr>db_positions = [position_100_at_50], db_tax_lots = [], db_transactions = []\<rparr>"

text \<open>\<^verbatim>\<open>int\<close> on the two strings that the year FY2024-25 is split into.\<close>

definition int_of_2024_25 :: "string \<Rightarrow> py_error + int" where
  "int_of_2024_25 s = (if s = ''2024'' then Inr 2024 else if s = ''25'' then Inr 25
                       else Inl ValueError)"

section \<open>Net-amount derivation\<close>

text \<open>
  Claim C8. A parsed transaction constructed without an explicit net amount gets
  net = gross + brokerage + taxes + other charges when its type is buy, and
  net = gross - brokerage - taxes - other charges for every other type; a transaction
  constructed with an explicit net amount keeps it, and no other field changes.
\<close>

theorem net_amount_derivation:
  "(pt_net_amount t = None \<and> pt_transaction_type t = BUY \<longrightarrow>
      pt_net_amount (post_init t) =
        Some (pt_gross_amount t + pt_brokerage t + pt_taxes t + pt_other_charges t))
   \<and> (pt_net_amount t = None \<and> pt_transaction_type t \<noteq> BUY \<longrightarrow>
      pt_net_amount (post_init t) =
        Some (pt_gross_amount t - pt_brokerage t - pt_taxes t - pt_other_charges t))
   \<and> (pt_net_amount t = Some n \<longrightarrow> post_init t = t)
   \<and> post_init t = t\<lparr>pt_net_amount := pt_net_amount (post_init t)\<rparr>"
  by (simp add: post_init_def)

theorem net_amount_derivation_witness:
  "pt_net_amount (post_init (example_parsed BUY None)) = Some 1017
   \<and> pt_net_amount (post_init (example_parsed SELL None)) = Some 983
   \<and> pt_net_amount (post_init (example_parsed DIVIDEND None)) = Some 983
   \<and> post_init (example_parsed SELL (Some 990)) = example_parsed SELL (Some 990)"
  using net_amount_derivation [of "example_parsed BUY None" 0]
    net_amount_derivation [of "example_parsed SELL None" 0]
    net_amount_derivation [of "example_parsed DIVIDEND None" 0]
    net_amount_derivation [of "example_parsed SELL (Some 990)" 990]
  by (simp add: example_parsed_def)

section \<open>FIFO cost basis\<close>

text \<open>
  Claim C1. Buys of 100 units at 30, 100 at 40 and 100 at 50, in chronological order,
  followed by a sell of 150 units at 45: the position calculator's loop records one
  realized gain, of 1750 (proceeds 6750 less the cost basis 5000 of 100 units at 30 and
  50 at 40), and leaves the lots with 0, 50 and 100 units; the position it returns has
  quantity 150, remaining cost 7000 and average cost 7000/150.
\<close>

theorem fifo_cost_basis:
  fixes b1 b2 b3 s :: Transaction
  assumes ty: "tx_transaction_type b1 = BUY" "tx_transaction_type b2 = BUY"
      "tx_transaction_type b3 = BUY" "tx_transaction_type s = SELL"
    and q: "tx_quantity b1 = 100" "tx_quantity b2 = 100" "tx_quantity b3 = 100"
      "tx_quantity s = 150"
    and p: "tx_price b1 = 30" "tx_price b2 = 40" "tx_price b3 = 50" "tx_price s = 45"
    and d: "tx_transaction_date b1 \<le> tx_transaction_date b2"
      "tx_transaction_date b2 \<le> tx_transaction_date b3"
      "tx_transaction_date b3 \<le> tx_transaction_date s"
  shows "\<exists>st g snap.
       position_loop initial_position_state (sort_key tx_transaction_date [b1, b2, b3, s]) = Inr st
     \<and> realized_gains st = [g]
     \<and> rg_sale_proceeds g = 6750 \<and> rg_cost_basis g = 5000 \<and> rg_realized_gain g = 1750
     \<and> map lot_remaining_quantity (tax_lots st) = [0, 50, 100]
     \<and> calculate_position [b1, b2, b3, s] current_price valuation_date = Inr snap
     \<and> ps_quantity snap = 150 \<and> ps_total_cost snap = 7000
     \<and> ps_average_cost snap = 7000 / 150"
proof -
  have d13: "tx_transaction_date b1 \<le> tx_transaction_date b3"
    using d by linarith
  have sorted: "sort_key tx_transaction_date [b1, b2, b3, s] = [b1, b2, b3, s]"
    using d by (intro sort_key_id_if_sorted) simp
  have loop: "\<exists>st g. position_loop initial_position_state [b1, b2, b3, s] = Inr st
     \<and> total_quantity st = 150
     \<and> realized_gains st = [g]
     \<and> rg_sale_proceeds g = 6750 \<and> rg_cost_basis g = 5000 \<and> rg_realized_gain g = 1750
     \<and> map lot_remaining_quantity (tax_lots st) = [0, 50, 100]
     \<and> map lot_cost_per_share (tax_lots st) = [30, 40, 50]"
    using ty q p d d13
    by (simp add: initial_position_state_def position_step_def process_transaction_def
        process_purchase_def process_sale_def sort_lots_def sale_step_def decimal_div_def
        Let_def)
  then obtain st g where st: "position_loop initial_position_state [b1, b2, b3, s] = Inr st"
    and tq: "total_quantity st = 150"
    and g: "realized_gains st = [g]" "rg_sale_proceeds g = 6750" "rg_cost_basis g = 5000"
      "rg_realized_gain g = 1750"
    and rem: "map lot_remaining_quantity (tax_lots st) = [0, 50, 100]"
    and cps: "map lot_cost_per_share (tax_lots st) = [30, 40, 50]"
    by (elim exE conjE)
  from rem cps obtain l1 l2 l3 where lots: "tax_lots st = [l1, l2, l3]"
    and l: "lot_remaining_quantity l1 = 0" "lot_remaining_quantity l2 = 50"
      "lot_remaining_quantity l3 = 100" "lot_cost_per_share l2 = 40" "lot_cost_per_share l3 = 50"
    by (auto simp: map_eq_Cons_conv)
  have rc: "remaining_cost_of (tax_lots st) = 7000"
    using lots l by (simp add: remaining_cost_of_def open_lots_def)
  have "\<exists>snap. calculate_position [b1, b2, b3, s] current_price valuation_date = Inr snap
     \<and> ps_quantity snap = 150 \<and> ps_total_cost snap = 7000
     \<and> ps_average_cost snap = 7000 / 150"
    using st tq rc sorted by (simp add: calculate_position_def Let_def)
  then show ?thesis
    using st g rem sorted by auto
qed

theorem fifo_cost_basis_witness:
  "\<exists>st g snap.
       position_loop initial_position_state (sort_key tx_transaction_date fifo_example) = Inr st
     \<and> realized_gains st = [g]
     \<and> rg_sale_proceeds g = 6750 \<and> rg_cost_basis g = 5000 \<and> rg_realized_gain g = 1750
     \<and> map lot_remaining_quantity (tax_lots st) = [0, 50, 100]
     \<and> calculate_position fifo_example None (day 30) = Inr snap
     \<and> ps_quantity snap = 150 \<and> ps_total_cost snap = 7000
     \<and> ps_average_cost snap = 140 / 3"
  using fifo_cost_basis [of "example_tx ''t1'' BUY (day 10) 100 30"
      "example_tx ''t2'' BUY (day 15) 100 40" "example_tx ''t3'' BUY (day 20) 100 50"
      "example_tx ''t4'' SELL (day 25) 150 45" None "day 30"]
  by (simp add: fifo_example_def example_tx_def day_def)

section \<open>Tax-lot invariant\<close>

lemma set_sort_lots: "set (sort_lots lot_method lots) = set lots"
  by (cases lot_method) (simp_all add: sort_lots_def)

lemma sale_step_inv:
  assumes "lot_inv lot" "\<forall>l\<in>set (updated_lots st). lot_inv l"
  shows "\<forall>l\<in>set (updated_lots (sale_step st lot)). lot_inv l"
  using assms by (auto simp: sale_step_def lot_inv_def Let_def min_def)

lemma sale_loop_inv:
  "\<forall>l\<in>set lots. lot_inv l \<Longrightarrow> \<forall>l\<in>set (updated_lots st). lot_inv l
   \<Longrightarrow> \<forall>l\<in>set (updated_lots (sale_loop st lots)). lot_inv l"
proof (induction lots arbitrary: st)
  case Nil
  then show ?case by simp
next
  case (Cons lot lots)
  have "\<forall>l\<in>set (updated_lots (sale_step st lot)). lot_inv l"
    using Cons.prems by (intro sale_step_inv) simp_all
  then show ?case using Cons by simp
qed

lemma process_sale_inv:
  assumes "\<forall>l\<in>set lots. lot_inv l" "process_sale lot_method t lots = Inr (lots', gains)"
  shows "\<forall>l\<in>set lots'. lot_inv l"
proof -
  have "\<forall>l\<in>set (updated_lots (sale_loop \<lparr>remaining_to_sell = tx_quantity t, updated_lots = [],
           acquisition_lots = [], total_cost_basis = 0\<rparr> (sort_lots lot_method lots))). lot_inv l"
    using assms(1) by (intro sale_loop_inv) (simp_all add: set_sort_lots)
  then show ?thesis
    using assms(2) by (auto simp: process_sale_def Let_def split: sum.splits)
qed

lemma process_purchase_inv:
  assumes "\<forall>l\<in>set lots. lot_inv l" "0 < tx_quantity t"
  shows "\<forall>l\<in>set (fst (process_purchase t lots)). lot_inv l"
  using assms by (auto simp: process_purchase_def lot_inv_def)

lemma process_transaction_inv:
  assumes "\<forall>l\<in>set lots. lot_inv l"
    "tx_transaction_type t = BUY \<longrightarrow> 0 < tx_quantity t"
    "process_transaction lot_method t lots = Inr (lots', gains)"
  shows "\<forall>l\<in>set lots'. lot_inv l"
proof (cases "tx_transaction_type t = BUY")
  case True
  then have "lots' = fst (process_purchase t lots)"
    using assms(3) by (simp add: process_transaction_def)
  then show ?thesis using process_purchase_inv [OF assms(1)] assms(2) True by simp
next
  case False
  show ?thesis
  proof (cases "tx_transaction_type t = SELL")
    case True
    then show ?thesis
      using assms(3) False process_sale_inv [OF assms(1)]
      by (simp add: process_transaction_def)
  next
    case notsell: False
    then show ?thesis using assms False by (auto simp: process_transaction_def)
  qed
qed

lemma process_transactions_inv:
  "\<forall>l\<in>set lots. lot_inv l
   \<Longrightarrow> \<forall>t\<in>set ts. tx_transaction_type t = BUY \<longrightarrow> 0 < tx_quantity t
   \<Longrightarrow> process_transactions lot_method lots ts = Inr lots'
   \<Longrightarrow> \<forall>l\<in>set lots'. lot_inv l"
proof (induction ts arbitrary: lots)
  case Nil
  then show ?case by simp
next
  case (Cons t ts)
  from Cons.prems(3) obtain lots1 gains where
    step: "process_transaction lot_method t lots = Inr (lots1, gains)"
    and rest: "process_transactions lot_method lots1 ts = Inr lots'"
    by (auto split: sum.splits)
  have "\<forall>l\<in>set lots1. lot_inv l"
    using process_transaction_inv [OF Cons.prems(1) _ step] Cons.prems(2) by simp
  then show ?case using Cons.IH [OF _ _ rest] Cons.prems(2) by simp
qed

text \<open>
  Claim C4, as stated: after every step of any sequence of buys and sells, every lot has
  0 \<le> remaining quantity \<le> quantity, and is closed exactly when its remaining quantity
  is zero. A buy of quantity zero, which the manager accepts, opens a lot that has nothing
  left and is not closed.
\<close>

theorem tax_lot_invariant_counterexample:
  "process_transactions FIFO [] [zero_quantity_buy] = Inr [zero_quantity_lot]
   \<and> lot_remaining_quantity zero_quantity_lot = 0
   \<and> \<not> lot_is_closed zero_quantity_lot
   \<and> \<not> lot_inv zero_quantity_lot"
  by (simp add: zero_quantity_buy_def zero_quantity_lot_def example_tx_def lot_inv_def
      process_transaction_def process_purchase_def)

text \<open>
  Claim C4, amended: for any sequence of buys and sells in which every buy has a positive
  quantity (what the ingestion layer's validation lets through), applied through the
  tax-lot manager from no lots, after every step that the manager completes every lot has
  0 \<le> remaining quantity \<le> quantity, and is closed exactly when its remaining quantity
  is zero.
\<close>

theorem tax_lot_invariant:
  assumes "\<forall>t\<in>set ts. tx_transaction_type t = BUY \<longrightarrow> 0 < tx_quantity t"
    and "process_transactions lot_method [] (take n ts) = Inr lots"
  shows "\<forall>lot\<in>set lots. 0 \<le> lot_remaining_quantity lot
     \<and> lot_remaining_quantity lot \<le> lot_quantity lot
     \<and> (lot_is_closed lot \<longleftrightarrow> lot_remaining_quantity lot = 0)"
proof -
  have "\<forall>t\<in>set (take n ts). tx_transaction_type t = BUY \<longrightarrow> 0 < tx_quantity t"
    using assms(1) by (meson in_set_takeD)
  then have "\<forall>l\<in>set lots. lot_inv l"
    using process_transactions_inv [OF _ _ assms(2)] by simp
  then show ?thesis by (simp add: lot_inv_def)
qed

theorem tax_lot_invariant_witness:
  "process_transactions FIFO [] (take 2 buy_then_sell) = Inr [partly_sold_lot]
   \<and> 0 \<le> lot_remaining_quantity partly_sold_lot
   \<and> lot_remaining_quantity partly_sold_lot \<le> lot_quantity partly_sold_lot
   \<and> lot_is_closed partly_sold_lot = (lot_remaining_quantity partly_sold_lot = 0)"
proof -
  have h1: "\<forall>t\<in>set buy_then_sell. tx_transaction_type t = BUY \<longrightarrow> 0 < tx_quantity t"
    by (simp add: buy_then_sell_def example_tx_def)
  have h2: "process_transactions FIFO [] (take 2 buy_then_sell) = Inr [partly_sold_lot]"
    by (simp add: buy_then_sell_def example_tx_def partly_sold_lot_def process_transaction_def
        process_purchase_def process_sale_def sort_lots_def sale_step_def decimal_div_def
        Let_def)
  show ?thesis
    using h2 tax_lot_invariant [OF h1 h2] by simp
qed

section \<open>Oversell\<close>

lemma open_quantity_nonneg: "0 \<le> open_quantity lots"
  by (induction lots) (auto simp: open_quantity_def open_lots_def)

lemma open_quantity_Cons:
  "open_quantity (lot # lots) =
     (if lot_remaining_quantity lot > 0 then lot_remaining_quantity lot else 0) + open_quantity lots"
  by (simp add: open_quantity_def open_lots_def)

lemma remaining_cost_Cons:
  "remaining_cost_of (lot # lots) =
     (if lot_remaining_quantity lot > 0 then lot_remaining_quantity lot * lot_cost_per_share lot else 0)
     + remaining_cost_of lots"
  by (simp add: remaining_cost_of_def open_lots_def)

lemma open_lots_Cons:
  "open_lots (lot # lots) = (if lot_remaining_quantity lot > 0 then lot # open_lots lots else open_lots lots)"
  by (simp add: open_lots_def)

lemma sale_loop_oversell:
  "open_quantity lots < remaining_to_sell st \<Longrightarrow>
   sale_loop st lots =
     \<lparr>remaining_to_sell = remaining_to_sell st - open_quantity lots,
      updated_lots = updated_lots st @ map sold_out lots,
      acquisition_lots = acquisition_lots st @ map consumed_entry (open_lots lots),
      total_cost_basis = total_cost_basis st + remaining_cost_of lots\<rparr>"
proof (induction lots arbitrary: st)
  case Nil
  then show ?case by (simp add: open_quantity_def open_lots_def remaining_cost_of_def)
next
  case (Cons lot lots)
  have nn: "0 \<le> open_quantity lots" by (rule open_quantity_nonneg)
  show ?case
  proof (cases "lot_remaining_quantity lot > 0")
    case True
    with Cons.prems nn have big: "lot_remaining_quantity lot < remaining_to_sell st"
      and rest: "open_quantity lots < remaining_to_sell st - lot_remaining_quantity lot"
      by (simp_all add: open_quantity_Cons)
    have step: "sale_step st lot =
       \<lparr>remaining_to_sell = remaining_to_sell st - lot_remaining_quantity lot,
        updated_lots = updated_lots st @ [sold_out lot],
        acquisition_lots = acquisition_lots st @ [consumed_entry lot],
        total_cost_basis = total_cost_basis st + lot_remaining_quantity lot * lot_cost_per_share lot\<rparr>"
      using True big by (simp add: sale_step_def Let_def min_def sold_out_def consumed_entry_def)
    show ?thesis
      using Cons.IH [of "sale_step st lot"] rest True
      by (simp add: step open_quantity_Cons remaining_cost_Cons open_lots_Cons)
  next
    case False
    with Cons.prems nn have pos: "0 < remaining_to_sell st"
      and rest: "open_quantity lots < remaining_to_sell st"
      by (simp_all add: open_quantity_Cons)
    have step: "sale_step st lot = st\<lparr>updated_lots := updated_lots st @ [sold_out lot]\<rparr>"
      using False pos by (simp add: sale_step_def sold_out_def)
    show ?thesis
      using Cons.IH [of "sale_step st lot"] rest False
      by (simp add: step open_quantity_Cons remaining_cost_Cons open_lots_Cons)
  qed
qed

lemma sum_list_insort_key:
  "sum_list (map g (insort_key k x xs)) = (g x :: rat) + sum_list (map g xs)"
  by (induction xs) (simp_all add: ac_simps)

lemma sum_list_sort_key:
  "sum_list (map g (sort_key k xs)) = sum_list (map (g::'a \<Rightarrow> rat) xs)"
  by (induction xs) (simp_all add: sum_list_insort_key)

lemma open_quantity_alt:
  "open_quantity lots = sum_list (map (\<lambda>l. if lot_remaining_quantity l > 0 then lot_remaining_quantity l else 0) lots)"
  by (induction lots) (simp_all add: open_quantity_Cons, simp add: open_quantity_def open_lots_def)

lemma remaining_cost_alt:
  "remaining_cost_of lots = sum_list (map (\<lambda>l. if lot_remaining_quantity l > 0 then lot_remaining_quantity l * lot_cost_per_share l else 0) lots)"
  by (induction lots) (simp_all add: remaining_cost_Cons, simp add: remaining_cost_of_def open_lots_def)

lemma open_quantity_sort [simp]: "open_quantity (sort_key k lots) = open_quantity lots"
  by (simp add: open_quantity_alt sum_list_sort_key)

lemma remaining_cost_sort [simp]: "remaining_cost_of (sort_key k lots) = remaining_cost_of lots"
  by (simp add: remaining_cost_alt sum_list_sort_key)

lemma open_lots_sold_out [simp]: "open_lots (map sold_out lots) = []"
  by (induction lots) (simp_all add: open_lots_def sold_out_def)

lemma process_sale_oversell:
  assumes over: "open_quantity lots < tx_quantity t"
  shows "\<exists>g. process_sale FIFO t lots = Inr (map sold_out (sort_key lot_acquisition_date lots), [g])
    \<and> rg_acquisition_lots g = map consumed_entry (open_lots (sort_key lot_acquisition_date lots))
    \<and> rg_cost_basis g = remaining_cost_of lots
    \<and> rg_sale_proceeds g = tx_quantity t * tx_price t
    \<and> rg_realized_gain g = tx_quantity t * tx_price t - remaining_cost_of lots"
proof -
  have "0 \<le> open_quantity lots" by (rule open_quantity_nonneg)
  with over have nz: "tx_quantity t \<noteq> 0" by auto
  have "open_quantity (sort_key lot_acquisition_date lots) < tx_quantity t" using over by simp
  from sale_loop_oversell [of "sort_key lot_acquisition_date lots"
      "\<lparr>remaining_to_sell = tx_quantity t, updated_lots = [], acquisition_lots = [], total_cost_basis = 0\<rparr>"] this
  show ?thesis
    using nz by (simp add: process_sale_def sort_lots_def decimal_div_def Let_def)
qed

lemma open_quantity_append:
  "open_quantity (xs @ ys) = open_quantity xs + open_quantity ys"
  by (simp add: open_quantity_def open_lots_def)

lemma sale_step_quantity:
  assumes "0 \<le> remaining_to_sell st"
  shows "0 \<le> remaining_to_sell (sale_step st lot)
     \<and> open_quantity (updated_lots (sale_step st lot)) =
         open_quantity (updated_lots st) + open_quantity [lot]
           - (remaining_to_sell st - remaining_to_sell (sale_step st lot))"
  using assms
  by (simp add: sale_step_def Let_def min_def open_quantity_append open_quantity_Cons
        open_quantity_def [of "[]"] open_lots_def [of "[]"])

lemma sale_loop_quantity:
  "0 \<le> remaining_to_sell st \<Longrightarrow>
   0 \<le> remaining_to_sell (sale_loop st lots)
     \<and> open_quantity (updated_lots (sale_loop st lots)) =
         open_quantity (updated_lots st) + open_quantity lots
           - (remaining_to_sell st - remaining_to_sell (sale_loop st lots))"
proof (induction lots arbitrary: st)
  case Nil
  then show ?case by (simp add: open_quantity_def open_lots_def)
next
  case (Cons lot lots)
  note s = sale_step_quantity [OF Cons.prems, of lot]
  from s have "0 \<le> remaining_to_sell (sale_step st lot)" by simp
  from Cons.IH [OF this] s show ?case
    by (simp add: open_quantity_Cons [of lot lots] open_quantity_Cons [of lot "[]"]
        open_quantity_def [of "[]"] open_lots_def [of "[]"])
qed

lemma process_sale_quantity:
  assumes "0 < tx_quantity t"
  shows "\<exists>lots' gains. process_sale FIFO t lots = Inr (lots', gains)
     \<and> open_quantity lots - tx_quantity t \<le> open_quantity lots'"
proof -
  let ?st0 = "\<lparr>remaining_to_sell = tx_quantity t, updated_lots = [],
                acquisition_lots = [], total_cost_basis = 0\<rparr>"
  have "0 \<le> remaining_to_sell ?st0" using assms by simp
  from sale_loop_quantity [OF this, of "sort_key lot_acquisition_date lots"]
  have "open_quantity lots - tx_quantity t
          \<le> open_quantity (updated_lots (sale_loop ?st0 (sort_key lot_acquisition_date lots)))"
    by (simp add: open_quantity_def [of "[]"] open_lots_def [of "[]"])
  then show ?thesis
    using assms by (simp add: process_sale_def sort_lots_def decimal_div_def Let_def)
qed

lemma position_step_inv:
  assumes "0 \<le> tx_quantity t" and "position_step st t = Inr st'" and "position_inv st"
  shows "position_inv st'"
proof (cases "tx_transaction_type t = BUY")
  case True
  then show ?thesis
    using assms
    by (auto simp: position_step_def process_transaction_def process_purchase_def
        position_inv_def open_quantity_append open_quantity_Cons open_quantity_def [of "[]"]
        open_lots_def [of "[]"])
next
  case False
  show ?thesis
  proof (cases "tx_transaction_type t = SELL")
    case True
    have "tx_quantity t \<noteq> 0"
      using assms(2) True
      by (auto simp: position_step_def process_transaction_def process_sale_def Let_def
          decimal_div_def split: if_splits sum.splits)
    with assms(1) have "0 < tx_quantity t" by simp
    from process_sale_quantity [OF this, of "tax_lots st"] obtain lots' gains
      where "process_sale FIFO t (tax_lots st) = Inr (lots', gains)"
        and "open_quantity (tax_lots st) - tx_quantity t \<le> open_quantity lots'"
      by blast
    then show ?thesis
      using True assms(2,3)
      by (auto simp: position_step_def process_transaction_def position_inv_def)
  next
    case notsell: False
    then show ?thesis using False assms by (simp add: position_step_def)
  qed
qed

lemma position_loop_inv:
  "\<forall>t\<in>set ts. 0 \<le> tx_quantity t \<Longrightarrow> position_loop st ts = Inr st' \<Longrightarrow> position_inv st
     \<Longrightarrow> position_inv st'"
proof (induction ts arbitrary: st)
  case Nil
  then show ?case by simp
next
  case (Cons t ts)
  from Cons.prems(2) obtain st1 where s1: "position_step st t = Inr st1"
    and s2: "position_loop st1 ts = Inr st'"
    by (auto split: sum.splits)
  have "position_inv st1"
    using position_step_inv [OF _ s1 Cons.prems(3)] Cons.prems(1) by simp
  from Cons.IH [OF _ s2 this] Cons.prems(1) show ?case by simp
qed

lemma position_loop_append:
  "position_loop st (ts @ [t]) =
     (case position_loop st ts of Inl e \<Rightarrow> Inl e | Inr st' \<Rightarrow> position_step st' t)"
  by (induction ts arbitrary: st) (simp_all split: sum.splits)

lemma calculate_position_of_loop:
  assumes "transactions \<noteq> []"
    and "position_loop initial_position_state (sort_key tx_transaction_date transactions) = Inr st"
  shows "\<exists>snap. calculate_position transactions current_price valuation_date = Inr snap
     \<and> ps_quantity snap = total_quantity st
     \<and> ps_total_cost snap = remaining_cost_of (tax_lots st)
     \<and> ps_average_cost snap =
         (if total_quantity st > 0 then remaining_cost_of (tax_lots st) / total_quantity st else 0)
     \<and> ps_tax_lots snap = map (lot_snapshot valuation_date) (open_lots (tax_lots st))"
proof -
  have "sort_key tx_transaction_date transactions \<noteq> []"
    using assms(1) by (metis length_0_conv length_sort)
  then obtain first_txn rest
    where fr: "sort_key tx_transaction_date transactions = first_txn # rest"
    by (cases "sort_key tx_transaction_date transactions") simp_all
  show ?thesis
    using assms(2) unfolding calculate_position_def fr
    by (simp add: Let_def del: position_loop.simps)
qed

lemma oversell_position:
  assumes sell: "tx_transaction_type t = SELL"
    and over: "open_quantity (tax_lots st) < tx_quantity t"
    and srt: "sorted (map tx_transaction_date (ts @ [t]))"
    and pos: "\<forall>x\<in>set ts. 0 \<le> tx_quantity x"
    and st: "position_loop initial_position_state ts = Inr st"
  shows "\<exists>snap. calculate_position (ts @ [t]) current_price valuation_date = Inr snap
     \<and> ps_quantity snap = total_quantity st - tx_quantity t \<and> ps_quantity snap < 0
     \<and> ps_total_cost snap = 0 \<and> ps_average_cost snap = 0 \<and> ps_tax_lots snap = []"
proof -
  have "position_inv initial_position_state"
    by (simp add: position_inv_def initial_position_state_def open_quantity_def open_lots_def)
  with position_loop_inv [OF pos st]
  have le: "total_quantity st \<le> open_quantity (tax_lots st)"
    by (simp add: position_inv_def)
  from process_sale_oversell [OF over] obtain g where
    g: "process_sale FIFO t (tax_lots st) =
          Inr (map sold_out (sort_key lot_acquisition_date (tax_lots st)), [g])"
    by blast
  let ?st' = "\<lparr>total_quantity = total_quantity st - tx_quantity t, total_cost = total_cost st,
      tax_lots = map sold_out (sort_key lot_acquisition_date (tax_lots st)),
      realized_gains = realized_gains st @ [g]\<rparr>"
  have loop: "position_loop initial_position_state (ts @ [t]) = Inr ?st'"
    using st sell g by (simp add: position_loop_append position_step_def process_transaction_def)
  have sorted: "sort_key tx_transaction_date (ts @ [t]) = ts @ [t]"
    using srt by (rule sort_key_id_if_sorted)
  have neg: "total_quantity st - tx_quantity t < 0" using le over by simp
  from calculate_position_of_loop [of "ts @ [t]" ?st' current_price valuation_date] loop sorted
  show ?thesis
    using neg by (auto simp: remaining_cost_of_def)
qed

text \<open>
  Claim C9. A sell whose quantity exceeds the quantity left in the open lots raises no
  error: the manager sells out every open lot in order of acquisition date, each entry of
  the gain's acquisition lots being a whole open lot; the cost basis is the remaining cost
  of the lots there were, and the realized gain is the full proceeds (quantity times
  price) less that cost basis. When the sell is the last transaction of a history that the
  position calculator replays without an error, the position's quantity ends negative.

  The transactions and lots are those the engine receives: column values, none negative
  (a dividend row or a buy of quantity zero is among them). The proceeds and the cost of
  the lots are below \<open>10^20\<close> and the quantities of the history sum to less than
  \<open>10^24\<close>, so that every product, sum and difference taken has at most 28 significant
  digits and is exact in \<^verbatim>\<open>Decimal\<close>.
\<close>

theorem oversell_absorbed:
  assumes sell: "tx_transaction_type t = SELL"
    and over: "open_quantity lots < tx_quantity t"
    and stored: "stored_transaction t" "\<forall>lot\<in>set lots. stored_lot lot"
    and exact: "tx_quantity t * tx_price t < 10 ^ 20" "remaining_cost_of lots < 10 ^ 20"
  shows "(\<exists>g. process_transaction FIFO t lots =
              Inr (map sold_out (sort_key lot_acquisition_date lots), [g])
          \<and> rg_acquisition_lots g =
              map consumed_entry (open_lots (sort_key lot_acquisition_date lots))
          \<and> rg_cost_basis g = remaining_cost_of lots
          \<and> rg_realized_gain g = tx_quantity t * tx_price t - remaining_cost_of lots)
     \<and> (\<forall>ts st current_price valuation_date.
          sorted (map tx_transaction_date (ts @ [t])) \<and> (\<forall>x\<in>set ts. stored_transaction x)
          \<and> sum_list (map tx_quantity ts) + tx_quantity t < 10 ^ 24
          \<and> position_loop initial_position_state ts = Inr st \<and> tax_lots st = lots
          \<longrightarrow> (\<exists>snap. calculate_position (ts @ [t]) current_price valuation_date = Inr snap
                \<and> ps_quantity snap = total_quantity st - tx_quantity t
                \<and> ps_quantity snap < 0))"
proof (intro conjI allI impI)
  from process_sale_oversell [OF over] sell
  show "\<exists>g. process_transaction FIFO t lots =
              Inr (map sold_out (sort_key lot_acquisition_date lots), [g])
          \<and> rg_acquisition_lots g =
              map consumed_entry (open_lots (sort_key lot_acquisition_date lots))
          \<and> rg_cost_basis g = remaining_cost_of lots
          \<and> rg_realized_gain g = tx_quantity t * tx_price t - remaining_cost_of lots"
    by (auto simp: process_transaction_def)
next
  fix ts st current_price valuation_date
  assume a: "sorted (map tx_transaction_date (ts @ [t])) \<and> (\<forall>x\<in>set ts. stored_transaction x)
          \<and> sum_list (map tx_quantity ts) + tx_quantity t < 10 ^ 24
          \<and> position_loop initial_position_state ts = Inr st \<and> tax_lots st = lots"
  then have o: "open_quantity (tax_lots st) < tx_quantity t" using over by simp
  from a have nn: "\<forall>x\<in>set ts. 0 \<le> tx_quantity x"
    by (simp add: stored_transaction_def numeric_15_4_def)
  from oversell_position [OF sell o _ nn, of current_price valuation_date] a
  show "\<exists>snap. calculate_position (ts @ [t]) current_price valuation_date = Inr snap
                \<and> ps_quantity snap = total_quantity st - tx_quantity t
                \<and> ps_quantity snap < 0"
    by blast
qed


theorem oversell_absorbed_witness:
  "tx_transaction_type (example_tx ''t2'' SELL (day 15) 150 45) = SELL
   \<and> open_quantity [bought_lot] < tx_quantity (example_tx ''t2'' SELL (day 15) 150 45)
   \<and> stored_transaction (example_tx ''t2'' SELL (day 15) 150 45)
   \<and> stored_lot bought_lot
   \<and> (\<exists>g. process_transaction FIFO (example_tx ''t2'' SELL (day 15) 150 45) [bought_lot] =
            Inr ([bought_lot\<lparr>lot_remaining_quantity := 0, lot_is_closed := True\<rparr>], [g])
        \<and> rg_acquisition_lots g = [(''t1'', 100, 3000)]
        \<and> rg_cost_basis g = 3000 \<and> rg_realized_gain g = 3750)
   \<and> tx_quantity (oversell_example ! 1) = 0
   \<and> (\<exists>snap. calculate_position oversell_example None (day 30) = Inr snap
        \<and> ps_quantity snap = - 50)"
proof -
  let ?t = "example_tx ''t2'' SELL (day 15) 150 45"
  let ?b = "example_tx ''t1'' BUY (day 10) 100 30"
  let ?d = "example_tx ''d1'' DIVIDEND (day 12) 0 0"
  let ?st = "\<lparr>total_quantity = 100, total_cost = 3000, tax_lots = [bought_lot],
              realized_gains = []\<rparr>"
  have h1: "tx_transaction_type ?t = SELL" by (simp add: example_tx_def)
  have h2: "open_quantity [bought_lot] < tx_quantity ?t"
    by (simp add: example_tx_def bought_lot_def open_quantity_def open_lots_def)
  have h3: "stored_transaction ?t"
    by (simp add: example_tx_def stored_transaction_def numeric_15_4_def)
  have h4: "\<forall>lot\<in>set [bought_lot]. stored_lot lot"
    by (simp add: bought_lot_def stored_lot_def numeric_15_4_def)
  have h5: "tx_quantity ?t * tx_price ?t < 10 ^ 20" by (simp add: example_tx_def)
  have h6: "remaining_cost_of [bought_lot] < 10 ^ 20"
    by (simp add: bought_lot_def remaining_cost_of_def open_lots_def)
  have h7: "sorted (map tx_transaction_date ([?b, ?d] @ [?t]))
          \<and> (\<forall>x\<in>set [?b, ?d]. stored_transaction x)
          \<and> sum_list (map tx_quantity [?b, ?d]) + tx_quantity ?t < 10 ^ 24
          \<and> position_loop initial_position_state [?b, ?d] = Inr ?st
          \<and> tax_lots ?st = [bought_lot]"
    by (simp add: example_tx_def day_def bought_lot_def initial_position_state_def
        position_step_def process_transaction_def process_purchase_def net_or_gross_def
        stored_transaction_def numeric_15_4_def)
  note inst = oversell_absorbed [OF h1 h2 h3 h4 h5 h6]
  from inst have part1: "\<exists>g. process_transaction FIFO ?t [bought_lot] =
              Inr (map sold_out (sort_key lot_acquisition_date [bought_lot]), [g])
          \<and> rg_acquisition_lots g =
              map consumed_entry (open_lots (sort_key lot_acquisition_date [bought_lot]))
          \<and> rg_cost_basis g = remaining_cost_of [bought_lot]
          \<and> rg_realized_gain g = tx_quantity ?t * tx_price ?t - remaining_cost_of [bought_lot]"
    by (rule conjunct1)
  from inst h7 have part2: "\<exists>snap. calculate_position ([?b, ?d] @ [?t]) None (day 30) = Inr snap
                \<and> ps_quantity snap = total_quantity ?st - tx_quantity ?t
                \<and> ps_quantity snap < 0"
    by blast
  have e1: "\<exists>g. process_transaction FIFO ?t [bought_lot] =
            Inr ([bought_lot\<lparr>lot_remaining_quantity := 0, lot_is_closed := True\<rparr>], [g])
        \<and> rg_acquisition_lots g = [(''t1'', 100, 3000)]
        \<and> rg_cost_basis g = 3000 \<and> rg_realized_gain g = 3750"
    using part1
    by (simp add: sold_out_def consumed_entry_def open_lots_def remaining_cost_of_def
        bought_lot_def example_tx_def)
  have e2: "\<exists>snap. calculate_position oversell_example None (day 30) = Inr snap
        \<and> ps_quantity snap = - 50"
    using part2 by (auto simp: oversell_example_def example_tx_def)
  from h4 have h4': "stored_lot bought_lot" by simp
  have z: "tx_quantity (oversell_example ! 1) = 0"
    by (simp add: oversell_example_def example_tx_def)
  show ?thesis using h1 h2 h3 h4' e1 z e2 by blast
qed

section \<open>Duplicate registration\<close>

lemma register_existing_email:
  assumes "\<exists>u\<in>set users. user_email u = reg_email user_data"
  shows "register sha256_hexdigest new_id now user_data users =
           (Inl (HTTPException 500 ''Registration failed''), users)"
proof -
  from assms have "filter (\<lambda>u. user_email u = reg_email user_data) users \<noteq> []"
    by (simp add: filter_empty_conv)
  then show ?thesis
    by (auto simp: register_def register_try_def scalar_one_or_none_def
        split: list.splits sum.splits option.splits)
qed

text \<open>
  Claim C5. A registration whose email already exists is to fail with a client error
  carrying the message "Email already registered", and create no user. In the code the
  \<^verbatim>\<open>HTTPException\<close> with status 400 raised for it is caught by the
  \<^verbatim>\<open>except Exception\<close> handler of the same block: the request ends with status 500
  and the message "Registration failed". The users table is left as it was.
\<close>

theorem register_duplicate_email:
  "register sha256_hexdigest new_id now alice_again [alice] =
     (Inl (HTTPException 500 ''Registration failed''), [alice])"
  by (simp add: register_def register_try_def scalar_one_or_none_def alice_def alice_again_def)

section \<open>Canonical-id priority\<close>

lemma priority_ge_1: "1 \<le> priority ty"
  by (cases ty) simp_all

lemma insort_priority_first:
  assumes "identifier_type x = ISIN"
  shows "insort_key (\<lambda>x. priority (identifier_type x)) x ys = x # ys"
  using assms priority_ge_1 by (cases ys) simp_all

lemma sort_priority_isin_first:
  "find (\<lambda>i. identifier_type i = ISIN) identifiers = Some isin
   \<Longrightarrow> \<exists>rest. sort_key (\<lambda>x. priority (identifier_type x)) identifiers = isin # rest"
proof (induction identifiers)
  case Nil
  then show ?case by simp
next
  case (Cons x xs)
  show ?case
  proof (cases "identifier_type x = ISIN")
    case True
    with Cons.prems have "x = isin" by simp
    with True show ?thesis by (simp add: insort_priority_first)
  next
    case False
    with Cons.prems have "find (\<lambda>i. identifier_type i = ISIN) xs = Some isin" by simp
    from Cons.IH [OF this] obtain rest
      where r: "sort_key (\<lambda>x. priority (identifier_type x)) xs = isin # rest" by blast
    from Cons.prems have ty: "identifier_type isin = ISIN"
      by (metis (mono_tags, lifting) find_Some_iff)
    have "\<not> priority (identifier_type x) \<le> priority (identifier_type isin)"
      using False ty by (cases "identifier_type x") simp_all
    then show ?thesis by (simp add: r)
  qed
qed

lemma new_canonical_id_isin:
  assumes "find (\<lambda>i. identifier_type i = ISIN) identifiers = Some isin"
  shows "new_canonical_id md5 name identifiers ac = Inr (''ISIN:'' @ id_value isin)"
proof -
  from sort_priority_isin_first [OF assms] obtain rest
    where "sort_key (\<lambda>x. priority (identifier_type x)) identifiers = isin # rest" by blast
  moreover from assms have "identifier_type isin = ISIN"
    by (metis (mono_tags, lifting) find_Some_iff)
  ultimately show ?thesis
    by (simp add: new_canonical_id_def select_primary_identifier_def generate_def)
qed

text \<open>
  Claim C6. An instrument with neither an ISIN nor a symbol gets, in the engine and in
  the ingestion service alike, the id
  \<^verbatim>\<open>MANUAL:<ASSET_CLASS>:<first 8 hex digits of the MD5 of the name, in upper case>\<close>.
  The code gives it in neither: for the commodity named \<^verbatim>\<open>Family Gold\<close> the
  ingestion service gives \<^verbatim>\<open>MANUAL:a34eaac5\<close>, where
  \<^verbatim>\<open>CanonicalIdGenerator.generate\<close> gives \<^verbatim>\<open>MANUAL:COMMODITY:A34EAAC5\<close>; and
  the engine, which has no identifier to choose from for such an instrument, raises
  \<^verbatim>\<open>IndexError\<close> when it selects the primary identifier.
\<close>

theorem canonical_id_manual_form:
  "generate_canonical_id md5_family_gold family_gold = ''MANUAL:a34eaac5''
   \<and> generate md5_family_gold manual_identifier COMMODITY ''Family Gold''
       = ''MANUAL:COMMODITY:A34EAAC5''
   \<and> new_canonical_id md5_hexdigest name [] asset_class = Inl IndexError"
  by (simp add: generate_canonical_id_def family_gold_def md5_family_gold_def truthy_def
      new_canonical_id_def select_primary_identifier_def generate_def manual_identifier_def
      upper_def upper_char_def)

section \<open>Stock split\<close>

lemma split_position_raises: "split_position r (loaded p) = Inl AttributeError"
  by (simp add: split_position_def Position_get_def loaded_def)

lemma for_each_raises:
  "\<forall>x\<in>set xs. body x = Inl e \<Longrightarrow> xs \<noteq> [] \<Longrightarrow> for_each body xs = (Inl e, xs)"
  by (cases xs) simp_all

lemma write_back_same: "write_back rows rows table = table"
  by (induction rows arbitrary: table) simp_all

lemma split_always_raises:
  assumes "ca_ratio_old action = Some ratio_old" "ca_ratio_new action = Some ratio_new"
    "ratio_old \<noteq> 0" "ratio_new \<noteq> 0"
  shows "process_stock_split action db = (Inl AttributeError, db)"
proof -
  let ?rows = "filter (\<lambda>p. pos_instrument_id p = ca_instrument_id action \<and> pos_quantity p > 0)
                 (db_positions db)"
  show ?thesis
  proof (cases "?rows = []")
    case True
    then show ?thesis
      using assms
      by (simp add: process_stock_split_def Let_def class_attribute_def TaxLot_attributes_def)
  next
    case False
    have "for_each (split_position (ratio_new / ratio_old)) (map loaded ?rows)
            = (Inl AttributeError, map loaded ?rows)"
      using False by (intro for_each_raises) (auto simp: split_position_raises)
    then show ?thesis
      using assms
      by (simp add: process_stock_split_def Let_def loaded_def comp_def write_back_same)
  qed
qed

text \<open>
  Claim C3. A stock split with ratio_old = 1 and ratio_new = 2 is to turn a position of
  100 shares at average cost 50 into 200 shares at average cost 25. In the code the loop
  over the positions reads \<^verbatim>\<open>position.average_price\<close>, and \<^verbatim>\<open>Position\<close>
  in models.py has the column \<^verbatim>\<open>average_cost\<close> and no \<^verbatim>\<open>average_price\<close>:
  the read raises \<^verbatim>\<open>AttributeError\<close> on the first open position, before anything
  is assigned, and the position stays at 100 shares and average cost 50. With no open
  position the query of the tax lots raises on \<^verbatim>\<open>TaxLot.status\<close>, which models.py
  does not declare either.
\<close>

theorem stock_split_raises:
  "process_stock_split split_1_for_2 split_database = (Inl AttributeError, split_database)
   \<and> db_positions split_database = [position_100_at_50]
   \<and> pos_quantity position_100_at_50 = 100 \<and> pos_average_cost position_100_at_50 = 50"
  by (simp add: process_stock_split_def split_1_for_2_def split_database_def
      position_100_at_50_def split_position_def Position_get_def loaded_def)

section \<open>Capital-gains report\<close>

lemma query_raises: "evaluate_attributes capital_gains_query_attributes = Inl AttributeError"
  by (simp add: capital_gains_query_attributes_def class_attribute_def TaxLot_attributes_def
      Transaction_attributes_def)

lemma capital_gains_report_always_500:
  "get_capital_gains_report py_int today financial_year portfolio_id current_user rows =
     Inl (HTTPException 500 ''Error generating capital gains report'')"
  by (simp add: get_capital_gains_report_def capital_gains_try_def query_raises
      split: sum.splits prod.splits)

text \<open>
  Claim C2. The report for FY2024-25 is to return the realized tax lots whose sell date
  lies in the window from 2024-04-01 to 2025-03-31, each long-term exactly when it was
  held more than 365 days, with net gains the sum of the two totals. In the code the
  window is computed (days 19814 and 20178 after 1970-01-01), and then the query cannot
  be built: it names \<^verbatim>\<open>TaxLot.buy_transaction\<close> and \<^verbatim>\<open>TaxLot.status\<close>,
  which \<^verbatim>\<open>TaxLot\<close> in models.py does not declare, so \<^verbatim>\<open>AttributeError\<close> is
  raised and the handler answers with the status 500, whatever the rows are.
\<close>

theorem capital_gains_report_raises:
  "financial_year_window int_of_2024_25 ''FY2024-25'' = Inr (day 19814, day 20178)
   \<and> get_capital_gains_report int_of_2024_25 today ''FY2024-25'' None current_user rows =
       Inl (HTTPException 500 ''Error generating capital gains report'')"
  by (simp add: get_capital_gains_report_def capital_gains_try_def query_raises
      financial_year_window_def int_of_2024_25_def item_def py_date_def
      days_from_civil_def day_def Let_def)

section \<open>Newton's iteration on the example\<close>

text \<open>Bernoulli's inequality for a real exponent between 0 and 1, and the bound it gives
  from below.\<close>

lemma bernoulli_powr:
  fixes x a :: real
  assumes x: "0 \<le> x" and a: "0 \<le> a" "a \<le> 1"
  shows "(1 + x) powr a \<le> 1 + a * x"
proof -
  let ?f = "\<lambda>z. 1 + a * z - (1 + z) powr a"
  have "?f 0 \<le> ?f x"
  proof (rule DERIV_nonneg_imp_nondecreasing [OF x])
    fix z :: real
    assume z: "0 \<le> z" "z \<le> x"
    have d: "(?f has_real_derivative (a - a * (1 + z) powr (a - 1))) (at z)"
      using z by (auto intro!: derivative_eq_intros)
    have "(1 + z) powr (a - 1) \<le> (1 + z) powr 0"
      using z a by (intro powr_mono) auto
    then have "(1 + z) powr (a - 1) \<le> 1" using z by simp
    then have "a * (1 + z) powr (a - 1) \<le> a * 1"
      using a by (intro mult_left_mono) auto
    then have "0 \<le> a - a * (1 + z) powr (a - 1)" by simp
    with d show "\<exists>y. (?f has_real_derivative y) (at z) \<and> 0 \<le> y" by blast
  qed
  then show ?thesis by simp
qed


lemma powr_lower:
  fixes x a :: real
  assumes x: "0 \<le> x" and a: "0 \<le> a" "a \<le> 1"
  shows "(1 + x) / (1 + (1 - a) * x) \<le> (1 + x) powr a"
proof -
  have b: "(1 + x) powr (1 - a) \<le> 1 + (1 - a) * x"
    using bernoulli_powr [of x "1 - a"] x a by simp
  have pos: "0 < 1 + (1 - a) * x"
    using x a by (simp add: add_pos_nonneg)
  have "(1 + x) powr a * (1 + x) powr (1 - a) = (1 + x) powr 1"
    by (simp add: powr_add [symmetric])
  also have "\<dots> = 1 + x" using x by simp
  finally have "1 + x = (1 + x) powr a * (1 + x) powr (1 - a)" by simp
  also have "\<dots> \<le> (1 + x) powr a * (1 + (1 - a) * x)"
    using b by (intro mult_left_mono) auto
  finally show ?thesis using pos by (simp add: pos_divide_le_eq)
qed

lemma newton_real_step:
  fixes s :: real
  assumes s: "11 / 10 \<le> s" and u: "s powr (1460 / 1461) \<le> 11 / 10"
  defines "e \<equiv> 1 - s powr (1460 / 1461) / (11 / 10)"
  defines "s' \<equiv> s * (1 + e / (1460 / 1461))"
  shows "11 / 10 \<le> s'" and "s' powr (1460 / 1461) \<le> 11 / 10"
    and "1 - s' powr (1460 / 1461) / (11 / 10) \<le> e\<^sup>2 / (1460 / 1461)"
    and "0 \<le> e"
proof -
  define y :: real where "y = 1460 / 1461"
  define x where "x = e / y"
  define t where "t = s powr y / (11 / 10)"
  have y: "0 < y" "y \<le> 1" by (simp_all add: y_def)
  have e0: "0 \<le> e" using u by (simp add: e_def)
  then show "0 \<le> e" .
  have x0: "0 \<le> x" using e0 y by (simp add: x_def)
  have yx: "y * x = e" using y by (simp add: x_def)
  have t: "t = 1 - e" by (simp add: t_def e_def y_def)
  have t0: "0 \<le> t" by (simp add: t_def)
  have s': "s' = s * (1 + x)" by (simp add: s'_def x_def y_def)
  have "s * 1 \<le> s * (1 + x)" using s x0 by (intro mult_left_mono) auto
  then have "s \<le> s'" unfolding s' by simp
  with s show "11 / 10 \<le> s'" by linarith
  have pw: "s' powr y = s powr y * (1 + x) powr y"
    using s x0 by (simp add: s' powr_mult)
  have t': "s' powr y / (11 / 10) = t * (1 + x) powr y"
    by (simp add: pw t_def)
  have up: "(1 + x) powr y \<le> 1 + y * x"
    using bernoulli_powr [of x y] x0 y by simp
  have "t * (1 + x) powr y \<le> t * (1 + y * x)"
    using up t0 by (intro mult_left_mono) auto
  also have "\<dots> = (1 - e) * (1 + e)" by (simp only: t yx)
  also have "\<dots> = 1 - e\<^sup>2" by (simp add: power2_eq_square algebra_simps)
  also have "\<dots> \<le> 1" by simp
  finally have "s' powr y / (11 / 10) \<le> 1" by (simp only: t')
  then show "s' powr (1460 / 1461) \<le> 11 / 10" by (simp add: y_def)
  have pos: "0 < 1 + (1 - y) * x" using x0 y by (simp add: add_pos_nonneg)
  have lo: "(1 + x) / (1 + (1 - y) * x) \<le> (1 + x) powr y"
    using powr_lower [of x y] x0 y by simp
  have "t * ((1 + x) / (1 + (1 - y) * x)) \<le> t * (1 + x) powr y"
    using lo t0 by (intro mult_left_mono) auto
  then have "1 - t * (1 + x) powr y \<le> 1 - t * ((1 + x) / (1 + (1 - y) * x))" by simp
  also have "\<dots> = (1 + (1 - y) * x - (1 - e) * (1 + x)) / (1 + (1 - y) * x)"
    using pos by (simp add: t field_simps)
  also have "1 + (1 - y) * x - (1 - e) * (1 + x) = e * x"
  proof -
    have "1 + (1 - y) * x - (1 - e) * (1 + x) = e - y * x + e * x"
      by (simp add: algebra_simps)
    with yx show ?thesis by linarith
  qed
  also have "e * x / (1 + (1 - y) * x) \<le> e * x / 1"
    using e0 x0 y by (intro divide_left_mono) (auto simp: add_pos_nonneg)
  also have "e * x / 1 = e\<^sup>2 / y" by (simp add: x_def power2_eq_square)
  finally have "1 - s' powr y / (11 / 10) \<le> e\<^sup>2 / y" by (simp only: t')
  then show "1 - s' powr (1460 / 1461) / (11 / 10) \<le> e\<^sup>2 / (1460 / 1461)"
    by (simp add: y_def)
qed

lemma newton_real_bound:
  fixes s :: real
  assumes s: "11 / 10 \<le> s" and u: "s powr (1460 / 1461) \<le> 11 / 10"
  shows "s \<le> 11001 / 10000"
proof (rule ccontr)
  assume "\<not> s \<le> 11001 / 10000"
  then have gt: "11001 / 10000 < s" by simp
  have "(1 + 1001 / 10000) / (1 + (1 - 1460 / 1461) * (1001 / 10000))
      \<le> (1 + 1001 / 10000) powr (1460 / 1461 :: real)"
    by (rule powr_lower) simp_all
  moreover have "(11 / 10 :: real) \<le> (1 + 1001 / 10000) / (1 + (1 - 1460 / 1461) * (1001 / 10000))"
    by simp
  ultimately have "(11 / 10 :: real) \<le> (11001 / 10000) powr (1460 / 1461)" by simp
  also have "\<dots> < s powr (1460 / 1461)"
    using gt by (intro powr_less_mono2) simp_all
  finally show False using u by simp
qed

lemma newton_real_init:
  "(11 / 10 :: real) powr (1460 / 1461) \<le> 11 / 10"
  "1 - (11 / 10 :: real) powr (1460 / 1461) / (11 / 10) \<le> 7 / 10 ^ 5"
proof -
  have "(11 / 10 :: real) powr (1460 / 1461) \<le> (11 / 10) powr 1"
    by (intro powr_mono) simp_all
  then show "(11 / 10 :: real) powr (1460 / 1461) \<le> 11 / 10" by simp
  have "(1 + 1 / 10) / (1 + (1 - 1460 / 1461) * (1 / 10))
      \<le> (1 + 1 / 10) powr (1460 / 1461 :: real)"
    by (rule powr_lower) simp_all
  then have "(11 / 10 :: real) * (14610 / 14611) \<le> (11 / 10) powr (1460 / 1461)" by simp
  then show "1 - (11 / 10 :: real) powr (1460 / 1461) / (11 / 10) \<le> 7 / 10 ^ 5" by simp
qed

lemma newton_real_lower:
  fixes s :: real
  assumes s: "11 / 10 \<le> s"
  shows "1 \<le> s powr (1460 / 1461)"
  using s by (intro ge_one_powr_ge_zero) simp_all

section \<open>Float arithmetic within the range\<close>

lemma overflow_threshold_big: "10 ^ 6 < overflow_threshold"
  by (simp add: overflow_threshold_def)

lemma underflow_threshold_small: "underflow_threshold < 1 / 10 ^ 9"
  by (simp add: underflow_threshold_def)

lemma underflow_threshold_pos: "0 < underflow_threshold"
  by (simp add: underflow_threshold_def)

lemma to_float_finite:
  "1 / 10 ^ 9 \<le> \<bar>x\<bar> \<Longrightarrow> \<bar>x\<bar> \<le> 10 ^ 6 \<Longrightarrow> to_float x = Finite x"
  using overflow_threshold_big underflow_threshold_small
  unfolding to_float_def by (auto; linarith)

lemma to_float_pos:
  "lo \<le> x \<Longrightarrow> x \<le> hi \<Longrightarrow> 1 / 10 ^ 9 \<le> lo \<Longrightarrow> hi \<le> 10 ^ 6 \<Longrightarrow> to_float x = Finite x"
  by (rule to_float_finite) auto

lemma to_float_neg:
  "lo \<le> x \<Longrightarrow> x \<le> hi \<Longrightarrow> 1 / 10 ^ 9 \<le> lo \<Longrightarrow> hi \<le> 10 ^ 6
     \<Longrightarrow> to_float (- x) = Finite (- x)"
  by (rule to_float_finite) auto

lemma to_float_zero [simp]: "to_float 0 = Finite 0"
  using overflow_threshold_big underflow_threshold_pos
  by (simp add: to_float_def)

lemma to_float_small:
  "\<bar>x\<bar> \<le> 10 ^ 6 \<Longrightarrow> to_float x = Finite x \<or> (to_float x = Finite 0 \<and> \<bar>x\<bar> < 1 / 10 ^ 9)"
  using overflow_threshold_big underflow_threshold_small
  unfolding to_float_def by (auto; linarith)


lemma fdiv_Finite:
  "y \<noteq> 0 \<Longrightarrow> lo \<le> x / y \<Longrightarrow> x / y \<le> hi \<Longrightarrow> 1 / 10 ^ 9 \<le> lo \<Longrightarrow> hi \<le> 10 ^ 6
     \<Longrightarrow> fdiv (Finite x) (Finite y) = Inr (Finite (x / y))"
  using to_float_pos [of lo "x / y" hi] by (simp add: fdiv_def)

lemma fmul_Finite:
  "lo \<le> x * y \<Longrightarrow> x * y \<le> hi \<Longrightarrow> 1 / 10 ^ 9 \<le> lo \<Longrightarrow> hi \<le> 10 ^ 6
     \<Longrightarrow> fmul (Finite x) (Finite y) = Finite (x * y)"
  using to_float_pos [of lo "x * y" hi] by simp

lemma fadd_Finite:
  "lo \<le> x + y \<Longrightarrow> x + y \<le> hi \<Longrightarrow> 1 / 10 ^ 9 \<le> lo \<Longrightarrow> hi \<le> 10 ^ 6
     \<Longrightarrow> fadd (Finite x) (Finite y) = Finite (x + y)"
  using to_float_pos [of lo "x + y" hi] by simp

lemma fsub_zero_Finite:
  "lo \<le> x \<Longrightarrow> x \<le> hi \<Longrightarrow> 1 / 10 ^ 9 \<le> lo \<Longrightarrow> hi \<le> 10 ^ 6
     \<Longrightarrow> fsub (Finite 0) (Finite x) = Finite (- x)"
  using to_float_neg [of lo x hi] by (simp add: fsub_def)

lemma example_npv:
  fixes r :: real
  assumes r: "1 / 10 \<le> r" and u: "(1 + r) powr (1460 / 1461) \<le> 11 / 10"
  shows "npv_at [Finite (- 1000), Finite 1100] [0, 1460 / 1461] (Finite r)
    = Inr \<lparr>ns_rate = Finite r,
           ns_npv = to_float (1100 / (1 + r) powr (1460 / 1461) - 1000),
           ns_dnpv = Finite (- (1460 / 1461 * (1100 / (1 + r) powr (1460 / 1461)) / (1 + r)))\<rparr>"
proof -
  define u where "u = (1 + r) powr (1460 / 1461 :: real)"
  have u1: "1 \<le> u" using newton_real_lower [of "1 + r"] r by (simp add: u_def)
  have u2: "u \<le> 11 / 10" using u by (simp add: u_def)
  have r2: "r \<le> 1001 / 10000"
    using newton_real_bound [of "1 + r"] r u by simp
  have base: "fadd (Finite 1) (Finite r) = Finite (1 + r)"
    by (rule fadd_Finite [where lo = 1 and hi = 2]) (use r r2 in simp_all)
  have notm1: "\<not> feq (Finite r) (Finite (- 1))" using r by (simp add: feq_def)
  have pow0: "fpow (Finite (1 + r)) 0 = Inr (Finite 1)" by (simp add: fpow_def)
  have big: "\<not> overflow_threshold \<le> \<bar>u\<bar>"
    using overflow_threshold_big u1 u2 by simp
  have powy: "fpow (Finite (1 + r)) (1460 / 1461) = Inr (Finite u)"
    using r big to_float_pos [OF u1 u2]
    by (simp add: fpow_def pow_result_def u_def [symmetric])
  have d1: "fdiv (Finite (- 1000)) (Finite 1) = Inr (Finite (- 1000))"
    using to_float_neg [of 1000 1000 1000] by (simp add: fdiv_def)
  define p where "p = 1100 / u"
  have p1: "1000 \<le> p" using u1 u2 by (simp add: p_def pos_le_divide_eq)
  have p2: "p \<le> 1100" using u1 by (simp add: p_def pos_divide_le_eq)
  have d2: "fdiv (Finite 1100) (Finite u) = Inr (Finite p)"
    unfolding p_def
    by (rule fdiv_Finite [where lo = 1000 and hi = 1100]) (use u1 p1 p2 in \<open>simp_all add: p_def\<close>)
  have a1: "fadd (Finite 0) (Finite (- 1000)) = Finite (- 1000)"
    using to_float_neg [of 1000 1000 1000] by simp
  have a2: "fadd (Finite (- 1000)) (Finite p) = to_float (p - 1000)"
    by simp
  define a where "a = 1460 / 1461 * p"
  have m1: "999 \<le> a" using p1 by (simp add: a_def)
  have m2: "a \<le> 1100" using p2 by (simp add: a_def)
  have m: "fmul (Finite (1460 / 1461)) (Finite p) = Finite a"
    unfolding a_def
    by (rule fmul_Finite [where lo = 999 and hi = 1100]) (use m1 m2 in \<open>simp_all add: a_def\<close>)
  define q where "q = a / (1 + r)"
  have "a / (1 + r) \<le> 1100 / (11 / 10)"
    using m1 m2 r by (intro frac_le) auto
  moreover have "(1100 :: real) / (11 / 10) \<le> 1000" by simp
  ultimately have s1: "q \<le> 1000" unfolding q_def by (rule order_trans)
  have "999 / (11001 / 10000) \<le> a / (1 + r)"
    using m1 r r2 by (intro frac_le) auto
  moreover have "(900 :: real) \<le> 999 / (11001 / 10000)" by simp
  ultimately have s2: "900 \<le> q" unfolding q_def by (rule order_trans [rotated])
  have d3: "fdiv (Finite a) (Finite (1 + r)) = Inr (Finite q)"
    unfolding q_def
    by (rule fdiv_Finite [where lo = 900 and hi = 1000]) (use r s1 s2 in \<open>simp_all add: q_def\<close>)
  have sb: "fsub (Finite 0) (Finite q) = Finite (- q)"
    by (rule fsub_zero_Finite [OF s2 s1]) simp_all
  have "npv_at [Finite (- 1000), Finite 1100] [0, 1460 / 1461] (Finite r)
    = Inr \<lparr>ns_rate = Finite r, ns_npv = to_float (p - 1000), ns_dnpv = Finite (- q)\<rparr>"
    by (simp add: npv_at_def npv_step_def notm1 base pow0 powy d1 d2 a1 a2 m d3 sb
        del: fadd.simps fmul.simps)
  then show ?thesis by (simp only: q_def a_def p_def u_def)
qed


lemma example_step:
  fixes r :: real
  assumes r: "1 / 10 \<le> r" and u: "(1 + r) powr (1460 / 1461) \<le> 11 / 10"
  shows "newton_step [Finite (- 1000), Finite 1100] [0, 1460 / 1461] (Finite r)
    = Inr (if 1100 / (1 + r) powr (1460 / 1461) - 1000 < 1 / 10 ^ 6 then Converged (Finite r)
           else Continue (Finite ((1 + r)
             * (1 + (1 - (1 + r) powr (1460 / 1461) / (11 / 10)) / (1460 / 1461)) - 1)))"
proof -
  define u where "u = (1 + r) powr (1460 / 1461 :: real)"
  define v where "v = 1100 / u - 1000"
  define q where "q = 1460 / 1461 * (1100 / u) / (1 + r)"
  define r1 where "r1 = (1 + r) * (1 + (1 - u / (11 / 10)) / (1460 / 1461)) - 1"
  have u1: "1 \<le> u" using newton_real_lower [of "1 + r"] r by (simp add: u_def)
  have u2: "u \<le> 11 / 10" using u by (simp add: u_def)
  have r2: "r \<le> 1001 / 10000"
    using newton_real_bound [of "1 + r"] r u by simp
  have v0: "0 \<le> v" using u1 u2 by (simp add: v_def pos_le_divide_eq)
  have v1: "v \<le> 100" using u1 by (simp add: v_def pos_divide_le_eq)
  have npv: "npv_at [Finite (- 1000), Finite 1100] [0, 1460 / 1461] (Finite r)
      = Inr \<lparr>ns_rate = Finite r, ns_npv = to_float v, ns_dnpv = Finite (- q)\<rparr>"
    using example_npv [OF r u] by (simp only: u_def v_def q_def)
  have "1460 / 1461 * (1100 / u) / (1 + r) \<le> 1100 / (11 / 10)"
    using u1 r by (intro frac_le) (auto simp: pos_divide_le_eq)
  moreover have "(1100 :: real) / (11 / 10) \<le> 1000" by simp
  ultimately have q2: "q \<le> 1000" unfolding q_def by (rule order_trans)
  have "1000 \<le> 1100 / u" using u1 u2 by (simp add: pos_le_divide_eq)
  then have "999 \<le> 1460 / 1461 * (1100 / u)" by simp
  then have "999 / (11001 / 10000) \<le> 1460 / 1461 * (1100 / u) / (1 + r)"
    using r r2 u1 by (intro frac_le) auto
  moreover have "(900 :: real) \<le> 999 / (11001 / 10000)" by simp
  ultimately have q1: "900 \<le> q" unfolding q_def by (rule order_trans [rotated])
  have s': "11 / 10 \<le> 1 + r1" "(1 + r1) powr (1460 / 1461) \<le> 11 / 10"
    using newton_real_step(1,2) [of "1 + r"] r u by (simp_all add: r1_def u_def)
  have r1b: "1 / 10 \<le> r1" "r1 \<le> 1001 / 10000"
    using s' newton_real_bound [of "1 + r1"] by simp_all
  have change: "r + v / q = r1"
    using u1 r q1 by (simp add: v_def q_def r1_def field_simps)
  show ?thesis
  proof (cases "v < 1 / 10 ^ 6")
    case True
    have "to_float v = Finite v \<or> (to_float v = Finite 0 \<and> \<bar>v\<bar> < 1 / 10 ^ 9)"
      by (rule to_float_small) (use v0 v1 in simp)
    then have "flt (fabs (to_float v)) tolerance"
      using True v0 by (auto simp: tolerance_def)
    then have "newton_step [Finite (- 1000), Finite 1100] [0, 1460 / 1461] (Finite r)
        = Inr (Converged (Finite r))"
      by (simp add: newton_step_def npv)
    with True show ?thesis by (simp only: v_def u_def if_True)
  next
    case False
    then have v6: "1 / 10 ^ 6 \<le> v" by simp
    have tv: "to_float v = Finite v" by (rule to_float_pos [OF v6 v1]) simp_all
    have c1: "flt (fabs (to_float v)) tolerance = False"
      using v6 by (simp add: tv tolerance_def)
    have c2: "flt (fabs (Finite (- q))) (Finite (1 / 10 ^ 10)) = False"
      using q1 by simp
    have "1 / 10 ^ 6 / 1000 \<le> v / q" using v6 q1 q2 by (intro frac_le) auto
    moreover have "(1 :: real) / 10 ^ 9 \<le> 1 / 10 ^ 6 / 1000" by simp
    ultimately have w1: "1 / 10 ^ 9 \<le> v / q" by (rule order_trans [rotated])
    have "v / q \<le> 100 / 900" using v0 v1 q1 by (intro frac_le) auto
    moreover have "(100 :: real) / 900 \<le> 1" by simp
    ultimately have w2: "v / q \<le> 1" by (rule order_trans)
    have neg: "v / - q = - (v / q)" by simp
    have d: "fdiv (to_float v) (Finite (- q)) = Inr (Finite (- (v / q)))"
      using q1 to_float_neg [OF w1 w2] by (simp add: tv fdiv_def neg del: divide_minus_right)
    have sb: "fsub (Finite r) (Finite (- (v / q))) = Finite r1"
      using to_float_pos [OF r1b] by (simp add: fsub_def change)
    have c3: "(flt (Finite r1) (Finite (- 0.99)) \<or> flt (Finite 10) (Finite r1)) = False"
      using r1b by simp
    have "newton_step [Finite (- 1000), Finite 1100] [0, 1460 / 1461] (Finite r)
        = Inr (Continue (Finite r1))"
      by (simp only: newton_step_def npv sum.case Let_def npv_state.select_convs
          c1 c2 d sb c3 if_False)
    with False show ?thesis by (simp only: v_def u_def r1_def if_False)
  qed
qed


lemma example_converged:
  fixes r :: real
  assumes e: "1 - (1 + r) powr (1460 / 1461) / (11 / 10) \<le> 8 / 10 ^ 10"
  shows "1100 / (1 + r) powr (1460 / 1461) - 1000 < 1 / 10 ^ 6"
proof -
  define u where "u = (1 + r) powr (1460 / 1461 :: real)"
  have c: "11 / 10 * (1 - 8 / 10 ^ 10) \<le> u" using e by (simp add: u_def)
  have "1100 / u \<le> 1100 / (11 / 10 * (1 - 8 / 10 ^ 10))"
    using c by (intro divide_left_mono) auto
  moreover have "(1100 :: real) / (11 / 10 * (1 - 8 / 10 ^ 10)) < 1000 + 1 / 10 ^ 6" by simp
  ultimately have "1100 / u < 1000 + 1 / 10 ^ 6" by (rule le_less_trans)
  then show ?thesis by (simp add: u_def)
qed

lemma square_bound:
  fixes e :: real
  assumes "0 \<le> e" "e \<le> c" "e' \<le> e\<^sup>2 / (1460 / 1461)" "c\<^sup>2 / (1460 / 1461) \<le> d"
  shows "e' \<le> d"
proof -
  have "e\<^sup>2 \<le> c\<^sup>2" using assms(1,2) by (intro power_mono) auto
  then have "e\<^sup>2 / (1460 / 1461) \<le> c\<^sup>2 / (1460 / 1461)"
    by (intro divide_right_mono) auto
  with assms(3,4) show ?thesis by linarith
qed

lemma example_loop:
  "\<exists>r k. newton_loop (Suc (Suc (Suc n))) [Finite (- 1000), Finite 1100] [0, 1460 / 1461]
            (Finite (1 / 10)) 0 = (Inr (Some (Finite r)), k)
     \<and> 1 \<le> k \<and> k \<le> 3 \<and> 1 / 10 \<le> r \<and> r \<le> 1001 / 10000"
proof -
  let ?A = "[Finite (- 1000), Finite 1100]"
  let ?Y = "[0, 1460 / 1461 :: real]"
  define E where "E = (\<lambda>r :: real. 1 - (1 + r) powr (1460 / 1461) / (11 / 10))"
  define N where "N = (\<lambda>r :: real. (1 + r) * (1 + E r / (1460 / 1461)) - 1)"
  define P where "P = (\<lambda>r :: real. 1 / 10 \<le> r \<and> (1 + r) powr (1460 / 1461) \<le> 11 / 10)"
  have step: "newton_step ?A ?Y (Finite r)
      = Inr (if 1100 / (1 + r) powr (1460 / 1461) - 1000 < 1 / 10 ^ 6 then Converged (Finite r)
             else Continue (Finite (N r)))" if "P r" for r
    using example_step [of r] that by (simp only: P_def N_def E_def)
  have nxt: "P (N r) \<and> E (N r) \<le> (E r)\<^sup>2 / (1460 / 1461) \<and> 0 \<le> E r" if "P r" for r
    using newton_real_step [of "1 + r"] that by (simp add: P_def N_def E_def)
  have bound: "r \<le> 1001 / 10000" if "P r" for r
    using newton_real_bound [of "1 + r"] that by (simp add: P_def)
  have lo: "1 / 10 \<le> r" if "P r" for r using that by (simp add: P_def)
  have conv: "1100 / (1 + r) powr (1460 / 1461) - 1000 < 1 / 10 ^ 6" if "E r \<le> 8 / 10 ^ 10" for r
    using example_converged [of r] that by (simp only: E_def)
  define r0 :: real where "r0 = 1 / 10"
  define r1 where "r1 = N r0"
  define r2 where "r2 = N r1"
  have P0: "P r0" using newton_real_init(1) by (simp add: P_def r0_def)
  have E0: "E r0 \<le> 7 / 10 ^ 5" using newton_real_init(2) by (simp add: E_def r0_def)
  have P1: "P r1" using nxt [OF P0] by (simp add: r1_def)
  have E1: "E r1 \<le> 5 / 10 ^ 9"
  proof (rule square_bound)
    show "0 \<le> E r0" using nxt [OF P0] by simp
    show "E r0 \<le> 7 / 10 ^ 5" by (rule E0)
    show "E r1 \<le> (E r0)\<^sup>2 / (1460 / 1461)" using nxt [OF P0] by (simp add: r1_def)
    show "(7 / 10 ^ 5 :: real)\<^sup>2 / (1460 / 1461) \<le> 5 / 10 ^ 9" by (simp add: power2_eq_square)
  qed
  have P2: "P r2" using nxt [OF P1] by (simp add: r2_def)
  have E2: "E r2 \<le> 8 / 10 ^ 10"
  proof (rule square_bound)
    show "0 \<le> E r1" using nxt [OF P1] by simp
    show "E r1 \<le> 5 / 10 ^ 9" by (rule E1)
    show "E r2 \<le> (E r1)\<^sup>2 / (1460 / 1461)" using nxt [OF P1] by (simp add: r2_def)
    show "(5 / 10 ^ 9 :: real)\<^sup>2 / (1460 / 1461) \<le> 8 / 10 ^ 10" by (simp add: power2_eq_square)
  qed
  have s2: "newton_step ?A ?Y (Finite r2) = Inr (Converged (Finite r2))"
    using step [OF P2] conv [OF E2] by simp
  have l2: "newton_loop (Suc m) ?A ?Y (Finite r2) k = (Inr (Some (Finite r2)), Suc k)" for m k
    by (simp add: s2 del: newton_step_def)
  have l1: "\<exists>r. newton_loop (Suc (Suc m)) ?A ?Y (Finite r1) k = (Inr (Some (Finite r)), Suc k) \<and> P r
          \<or> newton_loop (Suc (Suc m)) ?A ?Y (Finite r1) k = (Inr (Some (Finite r)), Suc (Suc k)) \<and> P r"
    for m k
  proof (cases "1100 / (1 + r1) powr (1460 / 1461) - 1000 < 1 / 10 ^ 6")
    case True
    then have "newton_step ?A ?Y (Finite r1) = Inr (Converged (Finite r1))"
      using step [OF P1] by simp
    then have "newton_loop (Suc (Suc m)) ?A ?Y (Finite r1) k = (Inr (Some (Finite r1)), Suc k)"
      by simp
    with P1 show ?thesis by blast
  next
    case False
    then have "newton_step ?A ?Y (Finite r1) = Inr (Continue (Finite r2))"
      using step [OF P1] by (simp add: r2_def)
    then have "newton_loop (Suc (Suc m)) ?A ?Y (Finite r1) k
        = newton_loop (Suc m) ?A ?Y (Finite r2) (Suc k)"
      by simp
    with l2 P2 show ?thesis by auto
  qed
  have l0: "\<exists>r k. newton_loop (Suc (Suc (Suc n))) ?A ?Y (Finite r0) 0 = (Inr (Some (Finite r)), k)
          \<and> 1 \<le> k \<and> k \<le> 3 \<and> P r"
  proof (cases "1100 / (1 + r0) powr (1460 / 1461) - 1000 < 1 / 10 ^ 6")
    case True
    then have "newton_step ?A ?Y (Finite r0) = Inr (Converged (Finite r0))"
      using step [OF P0] by simp
    then have "newton_loop (Suc (Suc (Suc n))) ?A ?Y (Finite r0) 0 = (Inr (Some (Finite r0)), 1)"
      by simp
    with P0 show ?thesis by (intro exI [of _ r0] exI [of _ 1]) simp
  next
    case False
    then have "newton_step ?A ?Y (Finite r0) = Inr (Continue (Finite r1))"
      using step [OF P0] by (simp add: r1_def)
    then have eq: "newton_loop (Suc (Suc (Suc n))) ?A ?Y (Finite r0) 0
        = newton_loop (Suc (Suc n)) ?A ?Y (Finite r1) 1"
      by simp
    from l1 [of n 1] obtain r where
      "newton_loop (Suc (Suc n)) ?A ?Y (Finite r1) 1 = (Inr (Some (Finite r)), Suc 1) \<and> P r
       \<or> newton_loop (Suc (Suc n)) ?A ?Y (Finite r1) 1 = (Inr (Some (Finite r)), Suc (Suc 1)) \<and> P r"
      by blast
    then show ?thesis
    proof
      assume "newton_loop (Suc (Suc n)) ?A ?Y (Finite r1) 1 = (Inr (Some (Finite r)), Suc 1) \<and> P r"
      with eq show ?thesis by (intro exI [of _ r] exI [of _ 2]) simp
    next
      assume "newton_loop (Suc (Suc n)) ?A ?Y (Finite r1) 1
          = (Inr (Some (Finite r)), Suc (Suc 1)) \<and> P r"
      with eq show ?thesis by (intro exI [of _ r] exI [of _ 3]) simp
    qed
  qed
  then obtain r k where
    "newton_loop (Suc (Suc (Suc n))) ?A ?Y (Finite r0) 0 = (Inr (Some (Finite r)), k)"
    "1 \<le> k" "k \<le> 3" "P r"
    by blast
  with lo [of r] bound [of r] show ?thesis
    unfolding r0_def by blast
qed

section \<open>XIRR of the example\<close>

lemma years_of_example:
  "years_of [d, d + day 365] = [0, 1460 / 1461]"
  by (simp add: years_of_def timedelta_days_def day_def)

lemma float_of_decimal_example:
  "float_of_decimal (- 1000) = Finite (- 1000)" "float_of_decimal 1100 = Finite 1100"
  using to_float_neg [of 1000 1000 1000] to_float_pos [of 1100 1100 1100]
  by (simp_all add: float_of_decimal_def)

lemma example_routine:
  "\<exists>r k. calculate_xirr_newton_raphson [d, d + day 365] [Finite (- 1000), Finite 1100]
            = (Inr (Some (Finite r)), k)
     \<and> 1 \<le> k \<and> k \<le> 3 \<and> 1 / 10 \<le> r \<and> r \<le> 1001 / 10000"
proof -
  have "max_iterations = Suc (Suc (Suc 97))" by (simp add: max_iterations_def)
  then have "calculate_xirr_newton_raphson [d, d + day 365] [Finite (- 1000), Finite 1100]
      = newton_loop (Suc (Suc (Suc 97))) [Finite (- 1000), Finite 1100] [0, 1460 / 1461]
          (Finite (1 / 10)) 0"
    by (simp only: calculate_xirr_newton_raphson_def years_of_example guess_def)
      (simp del: newton_loop.simps)
  with example_loop [of 97] show ?thesis by simp
qed

text \<open>
  Claim C7. For the one cash flow of -1000 and the current value 1100 a year (365 days)
  later, \<^verbatim>\<open>calculate_xirr\<close> returns a rate within 1e-3 of 0.10. With fewer than two
  flows, the current value counted, the result is absent and nothing is raised: the
  routine returns \<^verbatim>\<open>None\<close> for fewer than two dates, before its loop, and
  \<^verbatim>\<open>calculate_xirr\<close> returns \<^verbatim>\<open>None\<close> for no cash flows. (One cash flow
  and a current value are two flows, the case of the first half.)
\<close>

theorem xirr_ten_percent:
  "(\<exists>r. calculate_xirr
          [\<lparr>cf_date = d, cf_amount = - 1000, cf_transaction_type = ty,
            cf_transaction_id = i\<rparr>] 1100 (d + day 365) = Some (Finite r)
        \<and> \<bar>r - 1 / 10\<bar> < 1 / 1000)
   \<and> (length dates < 2 \<longrightarrow> calculate_xirr_newton_raphson dates amounts = (Inr None, 0))
   \<and> calculate_xirr [] current_value valuation_date = None"
proof (intro conjI impI)
  from example_routine [of d] obtain r k where
    run: "calculate_xirr_newton_raphson [d, d + day 365] [Finite (- 1000), Finite 1100]
            = (Inr (Some (Finite r)), k)"
    and r: "1 / 10 \<le> r" "r \<le> 1001 / 10000"
    by blast
  have "calculate_xirr
          [\<lparr>cf_date = d, cf_amount = - 1000, cf_transaction_type = ty,
            cf_transaction_id = i\<rparr>] 1100 (d + day 365) = Some (Finite r)"
    by (simp add: calculate_xirr_def float_of_decimal_example run)
  moreover have "\<bar>r - 1 / 10\<bar> < 1 / 1000" using r by simp
  ultimately show "\<exists>r. calculate_xirr
          [\<lparr>cf_date = d, cf_amount = - 1000, cf_transaction_type = ty,
            cf_transaction_id = i\<rparr>] 1100 (d + day 365) = Some (Finite r)
        \<and> \<bar>r - 1 / 10\<bar> < 1 / 1000"
    by blast
next
  assume "length dates < 2"
  then show "calculate_xirr_newton_raphson dates amounts = (Inr None, 0)"
    by (simp add: calculate_xirr_newton_raphson_def)
next
  show "calculate_xirr [] current_value valuation_date = None"
    by (simp add: calculate_xirr_def)
qed


theorem xirr_ten_percent_witness:
  "(\<exists>r. calculate_xirr
          [\<lparr>cf_date = day 0, cf_amount = - 1000, cf_transaction_type = BUY,
            cf_transaction_id = None\<rparr>] 1100 (day 0 + day 365) = Some (Finite r)
        \<and> \<bar>r - 1 / 10\<bar> < 1 / 1000)
   \<and> length [day 0] < 2
   \<and> calculate_xirr_newton_raphson [day 0] [Finite (- 1000)] = (Inr None, 0)"
  using xirr_ten_percent [where d = "day 0" and ty = BUY and i = None and dates = "[day 0]"
      and amounts = "[Finite (- 1000)]"]
  by simp

section \<open>XIRR solver termination\<close>













end
